theory Spec2Isabelle
  imports Complex_Main
begin

section \<open>JavaScript values\<close>

text \<open>
  The server in \<^verbatim>\<open>src/backend/server.js\<close> works on untyped JavaScript values: the
  result of \<^verbatim>\<open>JSON.parse\<close>, object literals built from it, and \<^verbatim>\<open>undefined\<close> for
  every property that is not there. \<open>jsval\<close> is that universe. An object is an
  association list in the order of its keys; \<^verbatim>\<open>JSON.parse\<close> yields objects with
  pairwise distinct keys. The handlers only copy the numbers they read and
  compare them with zero, so a finite number is a rational here. A literal too
  large for a double parses to an infinity: \<open>JInfinity True\<close> is \<^verbatim>\<open>Infinity\<close>,
  \<open>JInfinity False\<close> is \<^verbatim>\<open>-Infinity\<close>. \<^verbatim>\<open>JSON.parse\<close> yields no \<^verbatim>\<open>NaN\<close>.
\<close>

datatype jsval =
    JUndefined
  | JNull
  | JBool bool
  | JNum rat
  | JInfinity bool
  | JStr string
  | JArr "jsval list"
  | JObj "(string \<times> jsval) list"

text \<open>What a \<^verbatim>\<open>throw\<close> carries; \<^verbatim>\<open>error.message\<close> is the text.\<close>

datatype error =
    SyntaxError string
  | TypeError string
  | ServiceError string

fun message :: "error \<Rightarrow> string" where
  "message (SyntaxError m) = m"
| "message (TypeError m) = m"
| "message (ServiceError m) = m"

text \<open>Truthiness, as \<^verbatim>\<open>if (v)\<close> and \<^verbatim>\<open>v || d\<close> test it.\<close>

fun truthy :: "jsval \<Rightarrow> bool" where
  "truthy JUndefined = False"
| "truthy JNull = False"
| "truthy (JBool b) = b"
| "truthy (JNum n) = (n \<noteq> 0)"
| "truthy (JInfinity positive) = True"
| "truthy (JStr s) = (s \<noteq> [])"
| "truthy (JArr xs) = True"
| "truthy (JObj kvs) = True"

text \<open>\<^verbatim>\<open>a || b\<close>\<close>

definition js_or :: "jsval \<Rightarrow> jsval \<Rightarrow> jsval" where
  "js_or a b = (if truthy a then a else b)"

text \<open>
  \<^verbatim>\<open>v.k\<close> for a value \<open>v\<close> that is neither \<^verbatim>\<open>null\<close> nor \<^verbatim>\<open>undefined\<close>, and for the
  keys the handlers read (none of them is a property of a prototype of strings,
  numbers, booleans, arrays or objects): the own property of an object,
  \<^verbatim>\<open>undefined\<close> otherwise.
\<close>

fun js_get :: "jsval \<Rightarrow> string \<Rightarrow> jsval" where
  "js_get (JObj kvs) k = (case map_of kvs k of Some v \<Rightarrow> v | None \<Rightarrow> JUndefined)"
| "js_get v k = JUndefined"

text \<open>\<^verbatim>\<open>v.k\<close> in general: reading a property of \<^verbatim>\<open>null\<close> or \<^verbatim>\<open>undefined\<close> throws.\<close>

definition nullish :: "jsval \<Rightarrow> bool" where
  "nullish v = (v = JNull \<or> v = JUndefined)"

definition js_prop :: "jsval \<Rightarrow> string \<Rightarrow> error + jsval" where
  "js_prop v k =
     (if nullish v then Inl (TypeError (''Cannot read properties of null or undefined: '' @ k))
      else Inr (js_get v k))"

text \<open>\<^verbatim>\<open>v?.k\<close>\<close>

definition js_opt_get :: "jsval \<Rightarrow> string \<Rightarrow> jsval" where
  "js_opt_get v k = (if nullish v then JUndefined else js_get v k)"

text \<open>
  \<^verbatim>\<open>JSON.stringify\<close>, which \<^verbatim>\<open>res.json\<close> applies to its argument, as a map on
  values: a property whose value is \<^verbatim>\<open>undefined\<close> is left out of its object, an
  \<^verbatim>\<open>undefined\<close> element of an array is written \<^verbatim>\<open>null\<close>, and so is a number that
  is not finite. The result is the value a client reads back from the response
  body.
\<close>

fun to_json :: "jsval \<Rightarrow> jsval" where
  "to_json (JArr xs) = JArr (map (\<lambda>v. if v = JUndefined then JNull else to_json v) xs)"
| "to_json (JObj kvs) =
     JObj (map (\<lambda>(k, v). (k, to_json v)) (filter (\<lambda>(k, v). v \<noteq> JUndefined) kvs))"
| "to_json (JInfinity positive) = JNull"
| "to_json v = v"

text \<open>The own keys of an object.\<close>

fun keys :: "jsval \<Rightarrow> string list" where
  "keys (JObj kvs) = map fst kvs"
| "keys v = []"

section \<open>Identifiers\<close>

text \<open>Decimal printing of a non-negative integer, as a template string does it.\<close>

definition digit_char :: "nat \<Rightarrow> char" where
  "digit_char d = ''0123456789'' ! d"

fun digits :: "nat \<Rightarrow> string" where
  "digits n = (if n < 10 then [digit_char n] else digits (n div 10) @ [digit_char (n mod 10)])"

declare digits.simps [simp del]

text \<open>\<^verbatim>\<open>`L${Date.now()}-${idx}`\<close>\<close>

definition mint :: "nat \<Rightarrow> nat \<Rightarrow> string" where
  "mint now idx = ''L'' @ digits now @ ''-'' @ digits idx"

text \<open>\<^verbatim>\<open>s.slice(-4)\<close>: the last four characters, all of \<open>s\<close> when it is shorter.\<close>

definition slice_last4 :: "string \<Rightarrow> string" where
  "slice_last4 s = drop (length s - 4) s"

section \<open>Mapping the extraction output (lines 152 to 166)\<close>

text \<open>
  The callback of \<^verbatim>\<open>.map((li, idx) => ...)\<close>. Its first property read,
  \<^verbatim>\<open>li.item_id\<close>, throws when \<open>li\<close> is \<^verbatim>\<open>null\<close>; after it no other read of \<open>li\<close> can
  throw, and \<^verbatim>\<open>li.size?.od_val\<close> never throws. \<open>now\<close> is what \<^verbatim>\<open>Date.now()\<close> returns
  while the callback runs.
\<close>

definition dimension :: "jsval \<Rightarrow> string \<Rightarrow> string \<Rightarrow> jsval" where
  "dimension sz val_key unit_key =
     JObj [(''value'', js_opt_get sz val_key), (''unit'', js_opt_get sz unit_key)]"

definition to_item :: "nat \<Rightarrow> jsval \<Rightarrow> nat \<Rightarrow> error + jsval" where
  "to_item now li idx =
     (case js_prop li ''item_id'' of
        Inl e \<Rightarrow> Inl e
      | Inr iid \<Rightarrow> Inr (JObj
          [(''item_id'', js_or iid (JStr (mint now idx))),
           (''line'', JNum (of_nat idx + 1)),
           (''description'', js_or (js_get li ''description'') (JStr [])),
           (''material_grade'', js_or (js_get li ''material_grade'') (JStr [])),
           (''size'', JObj
              [(''outer_diameter'', dimension (js_get li ''size'') ''od_val'' ''od_unit''),
               (''wall_thickness'', dimension (js_get li ''size'') ''wt_val'' ''wt_unit''),
               (''length'', dimension (js_get li ''size'') ''len_val'' ''len_unit'')]),
           (''quantity'', js_get li ''quantity''),
           (''uom'', js_get li ''uom'')]))"

text \<open>
  \<^verbatim>\<open>Array.prototype.map\<close> with the index, from index \<open>idx\<close> on; the first callback
  that throws ends it. \<open>clock idx\<close> is the reading of \<^verbatim>\<open>Date.now()\<close> during the
  callback for index \<open>idx\<close>: the clock may tick between two callbacks.
\<close>

fun map_items :: "(nat \<Rightarrow> nat) \<Rightarrow> jsval list \<Rightarrow> nat \<Rightarrow> error + jsval list" where
  "map_items clock [] idx = Inr []"
| "map_items clock (li # lis) idx =
     (case to_item (clock idx) li idx of
        Inl e \<Rightarrow> Inl e
      | Inr it \<Rightarrow>
          (case map_items clock lis (Suc idx) of
             Inl e \<Rightarrow> Inl e
           | Inr its \<Rightarrow> Inr (it # its)))"

text \<open>
  \<^verbatim>\<open>(parsedData.line_items || []).map(...)\<close>: reading \<^verbatim>\<open>line_items\<close> of \<^verbatim>\<open>null\<close> throws,
  and a truthy value that is not an array has no \<^verbatim>\<open>map\<close> to call.
\<close>

definition to_internal :: "(nat \<Rightarrow> nat) \<Rightarrow> jsval \<Rightarrow> error + jsval list" where
  "to_internal clock parsedData =
     (case js_prop parsedData ''line_items'' of
        Inl e \<Rightarrow> Inl e
      | Inr v \<Rightarrow>
          (case js_or v (JArr []) of
             JArr lis \<Rightarrow> map_items clock lis 0
           | _ \<Rightarrow> Inl (TypeError ''map is not a function'')))"

section \<open>The Parse/Edit handler (lines 38 to 191)\<close>

text \<open>
  The fields of \<^verbatim>\<open>req.body\<close> are the text fields of the multipart form: each is a
  string or absent. \<^verbatim>\<open>req.files\<close> is the list of uploaded files.
\<close>

record upload =
  path :: string
  mimetype :: string

record request =
  text_in :: "string option"
  projectName :: "string option"
  currentLineItems :: "string option"
  lang :: "string option"
  rfqId :: "string option"
  files :: "upload list"

text \<open>
  What the handler sends to \<^verbatim>\<open>ai.models.generateContent\<close>. The system instruction
  and the prompt are template strings over exactly these fields: the mode and
  the language; the request text (printed \<^verbatim>\<open>undefined\<close> when absent), the project
  name and, in edit mode only, \<^verbatim>\<open>JSON.stringify(currentItems, null, 2)\<close>; then one
  inline part (base64 data, media type) for each file.
\<close>

record gen_request =
  edit_mode :: bool
  language :: string
  request_text :: "string option"
  project_context :: string
  current_list :: "jsval option"
  inline_parts :: "(string \<times> string) list"

text \<open>
  What the handler calls and does not define: \<^verbatim>\<open>JSON.parse\<close>; the number the host
  reads from a string, array or object in \<^verbatim>\<open>v > 0\<close> (\<open>None\<close> is \<^verbatim>\<open>NaN\<close>);
  \<^verbatim>\<open>fs.readFileSync(path).toString("base64")\<close> and \<^verbatim>\<open>fs.unlinkSync(path)\<close>, both
  of which may throw; the extraction service, which throws or returns a
  response whose \<^verbatim>\<open>text\<close> is a string or \<^verbatim>\<open>undefined\<close>; and the clock.
\<close>

record env =
  json_parse :: "string \<Rightarrow> error + jsval"
  to_number :: "jsval \<Rightarrow> rat option"
  read_base64 :: "string \<Rightarrow> error + string"
  unlink :: "string \<Rightarrow> error option"
  generate_content :: "gen_request \<Rightarrow> error + string option"
  now_item :: "nat \<Rightarrow> nat"
  now_rfq :: nat

text \<open>\<^verbatim>\<open>s || d\<close> for a string or \<^verbatim>\<open>undefined\<close>: the empty string is falsy.\<close>

definition or_default :: "string option \<Rightarrow> string \<Rightarrow> string" where
  "or_default s d = (case s of None \<Rightarrow> d | Some t \<Rightarrow> if t = [] then d else t)"

text \<open>
  Lines 44 to 47: \<^verbatim>\<open>currentItems\<close> starts as \<^verbatim>\<open>[]\<close>; a non-empty
  \<^verbatim>\<open>currentLineItems\<close> is parsed, and the \<^verbatim>\<open>catch (e) {}\<close> drops a parse error.
\<close>

definition current_items :: "env \<Rightarrow> request \<Rightarrow> jsval" where
  "current_items E req =
     (case currentLineItems req of
        None \<Rightarrow> JArr []
      | Some s \<Rightarrow>
          if s = [] then JArr []
          else (case json_parse E s of Inl e \<Rightarrow> JArr [] | Inr v \<Rightarrow> v))"

text \<open>
  \<^verbatim>\<open>v.length\<close>: the length of an array or a string, the own property of an
  object, \<^verbatim>\<open>undefined\<close> on a number or boolean; it throws on \<^verbatim>\<open>null\<close>.
\<close>

fun js_length :: "jsval \<Rightarrow> error + jsval" where
  "js_length JNull = Inl (TypeError ''Cannot read properties of null: length'')"
| "js_length JUndefined = Inl (TypeError ''Cannot read properties of undefined: length'')"
| "js_length (JArr xs) = Inr (JNum (of_nat (length xs)))"
| "js_length (JStr s) = Inr (JNum (of_nat (length s)))"
| "js_length v = Inr (js_get v ''length'')"

text \<open>
  \<^verbatim>\<open>v > 0\<close>: \<^verbatim>\<open>undefined\<close> is \<^verbatim>\<open>NaN\<close>, \<^verbatim>\<open>null\<close> is 0, \<^verbatim>\<open>true\<close> is 1, and only the
  positive infinity is greater than 0.
\<close>

fun greater_zero :: "(jsval \<Rightarrow> rat option) \<Rightarrow> jsval \<Rightarrow> bool" where
  "greater_zero tn JUndefined = False"
| "greater_zero tn JNull = False"
| "greater_zero tn (JBool b) = b"
| "greater_zero tn (JNum n) = (0 < n)"
| "greater_zero tn (JInfinity positive) = positive"
| "greater_zero tn v = (case tn v of None \<Rightarrow> False | Some n \<Rightarrow> 0 < n)"

text \<open>Line 49: \<^verbatim>\<open>const isEditMode = currentItems.length > 0\<close>\<close>

definition isEditMode :: "env \<Rightarrow> request \<Rightarrow> error + bool" where
  "isEditMode E req =
     (case js_length (current_items E req) of
        Inl e \<Rightarrow> Inl e
      | Inr n \<Rightarrow> Inr (greater_zero (to_number E) n))"

text \<open>Lines 93 to 97: each file is read, pushed as a part, then deleted.\<close>

fun load_files :: "env \<Rightarrow> upload list \<Rightarrow> error + (string \<times> string) list" where
  "load_files E [] = Inr []"
| "load_files E (f # fs) =
     (case read_base64 E (path f) of
        Inl e \<Rightarrow> Inl e
      | Inr d \<Rightarrow>
          (case unlink E (path f) of
             Some e \<Rightarrow> Inl e
           | None \<Rightarrow>
               (case load_files E fs of
                  Inl e \<Rightarrow> Inl e
                | Inr ps \<Rightarrow> Inr ((d, mimetype f) # ps))))"

text \<open>Lines 40 to 97: everything before the call of the extraction service.\<close>

definition prepare :: "env \<Rightarrow> request \<Rightarrow> error + gen_request" where
  "prepare E req =
     (case isEditMode E req of
        Inl e \<Rightarrow> Inl e
      | Inr edit \<Rightarrow>
          (case load_files E (files req) of
             Inl e \<Rightarrow> Inl e
           | Inr ps \<Rightarrow> Inr
               \<lparr>edit_mode = edit,
                language = or_default (lang req) ''en'',
                request_text = text_in req,
                project_context = or_default (projectName req) ''N/A'',
                current_list = (if edit then Some (current_items E req) else None),
                inline_parts = ps\<rparr>))"

text \<open>Lines 100 to 147: the call; the result is \<^verbatim>\<open>response.text\<close>.\<close>

definition extraction :: "env \<Rightarrow> request \<Rightarrow> error + string option" where
  "extraction E req =
     (case prepare E req of Inl e \<Rightarrow> Inl e | Inr g \<Rightarrow> generate_content E g)"

text \<open>Line 168: the identifier sent with the request, or a fresh one.\<close>

definition new_rfq_id :: "env \<Rightarrow> request \<Rightarrow> string" where
  "new_rfq_id E req = or_default (rfqId req) (''RFQ-'' @ slice_last4 (digits (now_rfq E)))"

text \<open>Lines 170 to 180: the \<^verbatim>\<open>result\<close> object literal.\<close>

definition commercial_of :: "jsval \<Rightarrow> jsval" where
  "commercial_of parsedData =
     JObj
       [(''destination'',
           js_or (js_opt_get (js_get parsedData ''commercial'') ''destination'') (JStr [])),
        (''incoterm'',
           js_or (js_opt_get (js_get parsedData ''commercial'') ''incoterm'') (JStr [])),
        (''paymentTerm'',
           js_or (js_opt_get (js_get parsedData ''commercial'') ''payment_terms'') (JStr [])),
        (''otherRequirements'',
           js_or (js_opt_get (js_get parsedData ''commercial'') ''other_requirements'') (JStr []))]"

definition build_result :: "string \<Rightarrow> jsval \<Rightarrow> jsval list \<Rightarrow> jsval" where
  "build_result rid parsedData items =
     JObj
       [(''rfq_id'', JStr rid),
        (''project_name'', js_get parsedData ''project_name''),
        (''commercial'', commercial_of parsedData),
        (''line_items'', JArr items)]"

text \<open>
  Lines 149 to 180, from the service's \<^verbatim>\<open>response.text\<close>:
  \<^verbatim>\<open>JSON.parse(response.text || "{}")\<close>, the mapping, the result.
\<close>

definition reconcile :: "env \<Rightarrow> request \<Rightarrow> string option \<Rightarrow> error + jsval" where
  "reconcile E req response_text =
     (case json_parse E (or_default response_text ''{}'') of
        Inl e \<Rightarrow> Inl e
      | Inr parsedData \<Rightarrow>
          (case to_internal (now_item E) parsedData of
             Inl e \<Rightarrow> Inl e
           | Inr items \<Rightarrow> Inr (build_result (new_rfq_id E req) parsedData items)))"

definition pipeline :: "env \<Rightarrow> request \<Rightarrow> error + jsval" where
  "pipeline E req =
     (case extraction E req of Inl e \<Rightarrow> Inl e | Inr t \<Rightarrow> reconcile E req t)"

section \<open>The RFQ store and the responses\<close>

text \<open>
  \<^verbatim>\<open>const rfqStore = {}\<close> is a plain object used as a dictionary. Besides the own
  properties that the handler adds, it has what it inherits: the methods of
  \<^verbatim>\<open>Object.prototype\<close> and the accessor \<^verbatim>\<open>__proto__\<close>. Assigning to \<^verbatim>\<open>__proto__\<close>
  adds no key: it makes the assigned object the prototype of the store, whose
  own properties the store then inherits as well. \<open>proto\<close> is that object
  (\<open>None\<close>: the prototype is still \<^verbatim>\<open>Object.prototype\<close>).
\<close>

record store =
  own :: "string \<rightharpoonup> jsval"
  proto :: "jsval option"

definition rfqStore0 :: store where
  "rfqStore0 = \<lparr>own = Map.empty, proto = None\<rparr>"

definition object_prototype_methods :: "string list" where
  "object_prototype_methods =
     [''constructor'', ''hasOwnProperty'', ''isPrototypeOf'', ''propertyIsEnumerable'',
      ''toLocaleString'', ''toString'', ''valueOf'', ''__defineGetter__'',
      ''__defineSetter__'', ''__lookupGetter__'', ''__lookupSetter__'']"

text \<open>What \<^verbatim>\<open>rfqStore[k]\<close> evaluates to: a value, or a built-in function.\<close>

datatype slot = Value jsval | Builtin string

definition inherited :: "string \<Rightarrow> slot" where
  "inherited k = (if k \<in> set object_prototype_methods then Builtin k else Value JUndefined)"

text \<open>
  \<^verbatim>\<open>rfqStore[k]\<close>. \<^verbatim>\<open>Object.prototype\<close> itself, which has no enumerable property,
  reads as the empty object (\<^verbatim>\<open>res.json\<close> prints it \<^verbatim>\<open>{}\<close>).
\<close>

definition store_get :: "store \<Rightarrow> string \<Rightarrow> slot" where
  "store_get st k =
     (case own st k of
        Some v \<Rightarrow> Value v
      | None \<Rightarrow>
          if k = ''__proto__'' then Value (case proto st of Some r \<Rightarrow> r | None \<Rightarrow> JObj [])
          else (case proto st of
                  None \<Rightarrow> inherited k
                | Some r \<Rightarrow> if k \<in> set (keys r) then Value (js_get r k) else inherited k))"

text \<open>\<^verbatim>\<open>rfqStore[k] = v\<close> for an object \<open>v\<close> (the handler stores object literals).\<close>

definition store_put :: "store \<Rightarrow> string \<Rightarrow> jsval \<Rightarrow> store" where
  "store_put st k v =
     (if k = ''__proto__'' then st\<lparr>proto := Some v\<rparr> else st\<lparr>own := (own st)(k \<mapsto> v)\<rparr>)"

text \<open>
  Assignment never gives the store an own property \<^verbatim>\<open>__proto__\<close>: the store starts
  without one, and \<open>store_put\<close> adds none. Every store that the handler reaches
  from \<^verbatim>\<open>{}\<close> is of this kind.
\<close>

definition store_ok :: "store \<Rightarrow> bool" where
  "store_ok st = (own st ''__proto__'' = None)"

text \<open>
  A response: \<^verbatim>\<open>res.status(c).json(v)\<close>, whose body is \<open>to_json v\<close>; or status \<open>c\<close>
  with no body, which is what \<^verbatim>\<open>res.json\<close> sends for a function or for
  \<^verbatim>\<open>undefined\<close> (\<^verbatim>\<open>JSON.stringify\<close> returns \<^verbatim>\<open>undefined\<close> for both).
\<close>

datatype response = Json nat jsval | NoBody nat

fun status :: "response \<Rightarrow> nat" where
  "status (Json c v) = c"
| "status (NoBody c) = c"

fun body :: "response \<Rightarrow> jsval option" where
  "body (Json c v) = (if v = JUndefined then None else Some (to_json v))"
| "body (NoBody c) = None"

text \<open>
  Lines 38 to 191. The store is written once, at line 183, after everything that
  can throw; the handler never reads it. The \<^verbatim>\<open>catch\<close> answers 500 with the
  error's message.
\<close>

definition parse_handler :: "env \<Rightarrow> request \<Rightarrow> store \<Rightarrow> store \<times> response" where
  "parse_handler E req st =
     (case pipeline E req of
        Inl e \<Rightarrow> (st, Json 500 (JObj [(''error'', JStr (message e))]))
      | Inr result \<Rightarrow> (store_put st (new_rfq_id E req) result, Json 200 result))"

text \<open>Lines 224 to 228: \<^verbatim>\<open>GET /api/rfq/:id\<close>\<close>

definition get_rfq :: "store \<Rightarrow> string \<Rightarrow> response" where
  "get_rfq st ident =
     (case store_get st ident of
        Builtin f \<Rightarrow> NoBody 200
      | Value rfq \<Rightarrow>
          if truthy rfq then Json 200 rfq
          else Json 404 (JObj [(''error'', JStr ''Not found'')]))"

section \<open>Reading a result\<close>

text \<open>The fields of the produced line items that the properties below speak about.\<close>

definition item_ids :: "jsval list \<Rightarrow> jsval list" where
  "item_ids items = map (\<lambda>it. js_get it ''item_id'') items"

definition line_numbers :: "jsval list \<Rightarrow> jsval list" where
  "line_numbers items = map (\<lambda>it. js_get it ''line'') items"

definition dimension_of :: "jsval \<Rightarrow> string \<Rightarrow> jsval" where
  "dimension_of it d = js_get (js_get it ''size'') d"

definition unit_of :: "jsval \<Rightarrow> string \<Rightarrow> jsval" where
  "unit_of it d = js_get (dimension_of it d) ''unit''"

definition value_of :: "jsval \<Rightarrow> string \<Rightarrow> jsval" where
  "value_of it d = js_get (dimension_of it d) ''value''"

text \<open>
  The three Dimension fields of a line item, each with the keys of the raw
  \<^verbatim>\<open>size\<close> record it is built from (lines 159 to 161).
\<close>

definition dimension_keys :: "(string \<times> string \<times> string) list" where
  "dimension_keys =
     [(''outer_diameter'', ''od_val'', ''od_unit''),
      (''wall_thickness'', ''wt_val'', ''wt_unit''),
      (''length'', ''len_val'', ''len_unit'')]"

text \<open>
  The units that the system instruction (line 73) asks the service to use; a
  unit is acceptable when it is unset or one of them.
\<close>

definition normal_units :: "string list" where
  "normal_units = [''mm'', ''m'', ''in'', ''ft'', ''pcs'']"

definition unit_ok :: "jsval \<Rightarrow> bool" where
  "unit_ok u = (case u of JStr s \<Rightarrow> s \<in> set normal_units | _ \<Rightarrow> nullish u)"

text \<open>The line items of a response and of a raw extraction output.\<close>

fun array_items :: "jsval \<Rightarrow> jsval list" where
  "array_items (JArr xs) = xs"
| "array_items v = []"

definition raw_items :: "jsval \<Rightarrow> jsval list" where
  "raw_items parsedData = array_items (js_get parsedData ''line_items'')"

fun response_items :: "response \<Rightarrow> jsval list" where
  "response_items (Json c v) = array_items (js_get v ''line_items'')"
| "response_items (NoBody c) = []"

fun produced :: "error + jsval list \<Rightarrow> jsval list" where
  "produced (Inr items) = items"
| "produced (Inl e) = []"

section \<open>Example environments\<close>

text \<open>
  \<^verbatim>\<open>JSON.parse\<close> on the texts of a table, each paired with the value it denotes;
  the texts used below that are not in the table are not JSON, and are rejected.
\<close>

definition parse_table :: "(string \<times> jsval) list \<Rightarrow> string \<Rightarrow> error + jsval" where
  "parse_table tbl s =
     (case map_of tbl s of
        Some v \<Rightarrow> Inr v
      | None \<Rightarrow> Inl (SyntaxError ''Unexpected token in JSON''))"

text \<open>A clock that does not tick during the mapping.\<close>

definition fixed_clock :: "nat \<Rightarrow> nat \<Rightarrow> nat" where
  "fixed_clock t idx = t"

text \<open>
  An environment whose extraction service gives the same answer to every
  request, whose file system never fails, and whose clock stands at
  1700000001234 ms.
\<close>

definition example_env :: "(string \<times> jsval) list \<Rightarrow> error + string option \<Rightarrow> env" where
  "example_env tbl answer =
     \<lparr>json_parse = parse_table tbl,
      to_number = (\<lambda>v. None),
      read_base64 = (\<lambda>p. Inr ''AAAA''),
      unlink = (\<lambda>p. None),
      generate_content = (\<lambda>g. answer),
      now_item = fixed_clock 1700000001234,
      now_rfq = 1700000001234\<rparr>"

text \<open>A request with a text and, possibly, the current line items.\<close>

definition example_request :: "string option \<Rightarrow> request" where
  "example_request current =
     \<lparr>text_in = Some ''50 pcs pipe OD 10in WT 0.5in length 6m'',
      projectName = None,
      currentLineItems = current,
      lang = None,
      rfqId = None,
      files = []\<rparr>"

text \<open>
  An edit: the client sends one current item, \<^verbatim>\<open>a\<close>; the service answers with
  item \<^verbatim>\<open>a\<close> and two new items that both carry the identifier \<^verbatim>\<open>zzz\<close>.
\<close>

definition prior_text :: string where
  \<open>prior_text = ''[{"item_id":"a"}]''\<close>

definition edited_text :: string where
  \<open>edited_text = ''{"line_items":[{"item_id":"a"},{"item_id":"zzz"},{"item_id":"zzz"}]}''\<close>

definition edit_env :: env where
  "edit_env =
     example_env
       [(prior_text, JArr [JObj [(''item_id'', JStr ''a'')]]),
        (edited_text,
         JObj [(''line_items'',
                JArr [JObj [(''item_id'', JStr ''a'')],
                      JObj [(''item_id'', JStr ''zzz'')],
                      JObj [(''item_id'', JStr ''zzz'')]])])]
       (Inr (Some edited_text))"

definition edit_request :: request where
  "edit_request = example_request (Some prior_text)"

text \<open>
  Extraction outputs: one pipe whose outer diameter is 10 of the unit \<open>u\<close>; three
  items of which the second has no identifier; two items with the same
  identifier; and an item whose identifier is the one that the mapping mints
  for the next index when the clock stands at 5.
\<close>

definition one_pipe :: "string \<Rightarrow> jsval" where
  "one_pipe u =
     JObj [(''line_items'',
            JArr [JObj [(''item_id'', JStr ''a''),
                        (''size'', JObj [(''od_val'', JNum 10), (''od_unit'', JStr u)])]])]"

definition known_new_known :: jsval where
  "known_new_known =
     JObj [(''line_items'',
            JArr [JObj [(''item_id'', JStr ''a'')], JObj [], JObj [(''item_id'', JStr ''b'')]])]"

definition same_id_twice :: jsval where
  "same_id_twice =
     JObj [(''line_items'',
            JArr [JObj [(''item_id'', JStr ''A'')], JObj [(''item_id'', JStr ''A'')]])]"

definition minted_id_taken :: jsval where
  "minted_id_taken =
     JObj [(''line_items'', JArr [JObj [(''item_id'', JStr ''L5-1'')], JObj []])]"

text \<open>The service answers with the text of \<open>one_pipe ''in''\<close>.\<close>

definition pipe_text :: string where
  \<open>pipe_text = ''{"line_items":[{"item_id":"a","size":{"od_val":10,"od_unit":"in"}}]}''\<close>

definition pipe_env :: env where
  "pipe_env = example_env [(pipe_text, one_pipe ''in'')] (Inr (Some pipe_text))"

text \<open>The service answers with one item that has no field at all.\<close>

definition bare_item_text :: string where
  \<open>bare_item_text = ''{"line_items":[{}]}''\<close>

definition bare_item_env :: env where
  "bare_item_env =
     example_env [(bare_item_text, JObj [(''line_items'', JArr [JObj []])])]
       (Inr (Some bare_item_text))"

text \<open>
  The service answers with a project name, one commercial term and two items:
  the first has a quantity, a unit of measure and an outer diameter, the second
  has no field at all.
\<close>

definition two_items_text :: string where
  \<open>two_items_text =
     ''{"project_name":"Line 4","commercial":{"incoterm":"FOB"},"line_items":[{"item_id":"a","quantity":50,"uom":"pcs","size":{"od_val":10,"od_unit":"in"}},{}]}''\<close>

definition two_items :: jsval where
  "two_items =
     JObj [(''project_name'', JStr ''Line 4''),
           (''commercial'', JObj [(''incoterm'', JStr ''FOB'')]),
           (''line_items'',
            JArr [JObj [(''item_id'', JStr ''a''), (''quantity'', JNum 50), (''uom'', JStr ''pcs''),
                        (''size'', JObj [(''od_val'', JNum 10), (''od_unit'', JStr ''in'')])],
                  JObj []])]"

definition two_items_env :: env where
  "two_items_env = example_env [(two_items_text, two_items)] (Inr (Some two_items_text))"

section \<open>Theorems\<close>

subsection \<open>Minted identifiers are injective\<close>

lemma below_ten: "d < 10 \<Longrightarrow> d \<in> {0, 1, 2, 3, 4, 5, 6, 7, 8, 9::nat}"
  by auto

lemma digit_char_not_dash: "d < 10 \<Longrightarrow> digit_char d \<noteq> CHR ''-''"
  by (drule below_ten) (auto simp: digit_char_def)

lemma digit_char_inj: "a < 10 \<Longrightarrow> b < 10 \<Longrightarrow> digit_char a = digit_char b \<Longrightarrow> a = b"
proof -
  assume "a < 10" "b < 10" "digit_char a = digit_char b"
  have d: "distinct ''0123456789''" by simp
  have "length ''0123456789'' = 10" by simp
  with d \<open>a < 10\<close> \<open>b < 10\<close> \<open>digit_char a = digit_char b\<close> show "a = b"
    unfolding digit_char_def by (simp only: nth_eq_iff_index_eq)
qed

lemma digits_nonempty: "digits n \<noteq> []"
  by (subst digits.simps) simp

lemma dash_notin_digits: "CHR ''-'' \<notin> set (digits n)"
proof (induction n rule: digits.induct)
  case (1 n)
  show ?case
  proof (cases "n < 10")
    case True
    then show ?thesis using digit_char_not_dash [of n] by (subst digits.simps) auto
  next
    case False
    then show ?thesis using 1 digit_char_not_dash [of "n mod 10"]
      by (subst digits.simps) auto
  qed
qed

lemma digits_small: "n < 10 \<Longrightarrow> digits n = [digit_char n]"
  by (subst digits.simps) simp

lemma digits_large: "\<not> n < 10 \<Longrightarrow> digits n = digits (n div 10) @ [digit_char (n mod 10)]"
  by (subst digits.simps) simp

lemma digits_inj: "digits a = digits b \<Longrightarrow> a = b"
proof (induction a arbitrary: b rule: digits.induct)
  case (1 n)
  show ?case
  proof (cases "n < 10")
    case True
    note n = this
    show ?thesis
    proof (cases "b < 10")
      case True
      with n 1(2) show ?thesis
        using digit_char_inj [of n b] by (simp add: digits_small)
    next
      case False
      with n 1(2) digits_nonempty [of "b div 10"] show ?thesis
        by (simp add: digits_small digits_large)
    qed
  next
    case False
    note n = this
    show ?thesis
    proof (cases "b < 10")
      case True
      with n 1(2) digits_nonempty [of "n div 10"] show ?thesis
        by (simp add: digits_small digits_large)
    next
      case False
      with n 1(2) have eq: "digits (n div 10) = digits (b div 10)"
        and dc: "digit_char (n mod 10) = digit_char (b mod 10)"
        by (simp_all add: digits_large)
      from 1(1) [OF n eq] have "n div 10 = b div 10" .
      moreover from dc have "n mod 10 = b mod 10"
        using digit_char_inj [of "n mod 10" "b mod 10"] by simp
      ultimately show ?thesis by (metis div_mult_mod_eq)
    qed
  qed
qed

lemma takeWhile_before: "c \<notin> set a \<Longrightarrow> takeWhile (\<lambda>x. x \<noteq> c) (a @ c # b) = a"
  by (induction a) auto

lemma split_at_dash:
  assumes "c \<notin> set a" "c \<notin> set a'" "a @ c # b = a' @ c # b'"
  shows "a = a' \<and> b = b'"
proof -
  have "takeWhile (\<lambda>x. x \<noteq> c) (a @ c # b) = a"
    using assms(1) by (rule takeWhile_before)
  moreover have "takeWhile (\<lambda>x. x \<noteq> c) (a' @ c # b') = a'"
    using assms(2) by (rule takeWhile_before)
  ultimately have "a = a'" using assms(3) by simp
  with assms(3) show ?thesis by simp
qed

lemma mint_inj: "mint t i = mint t' j \<Longrightarrow> t = t' \<and> i = j"
  unfolding mint_def
  using split_at_dash [OF dash_notin_digits dash_notin_digits, of t "digits i" t' "digits j"]
  by (auto dest: digits_inj)

subsection \<open>The mapping, item by item\<close>

lemma map_items_length:
  "map_items clock lis idx = Inr its \<Longrightarrow> length its = length lis"
  by (induction lis arbitrary: idx its) (auto split: sum.splits)

lemma map_items_nth:
  "map_items clock lis idx = Inr its \<Longrightarrow> i < length lis \<Longrightarrow>
   to_item (clock (idx + i)) (lis ! i) (idx + i) = Inr (its ! i)"
proof (induction lis arbitrary: idx its i)
  case Nil
  then show ?case by simp
next
  case (Cons li lis)
  from Cons.prems(1) obtain it rest where
    it: "to_item (clock idx) li idx = Inr it" and
    rest: "map_items clock lis (Suc idx) = Inr rest" and
    its: "its = it # rest"
    by (auto split: sum.splits)
  show ?case
  proof (cases i)
    case 0
    with it its show ?thesis by simp
  next
    case (Suc j)
    with Cons.prems(2) have "j < length lis" by simp
    from Cons.IH [OF rest this] Suc its show ?thesis by simp
  qed
qed

lemma to_item_Inr:
  assumes "to_item now li idx = Inr it"
  shows "\<not> nullish li" and "js_get it ''item_id'' = js_or (js_get li ''item_id'') (JStr (mint now idx))"
    and "js_get it ''line'' = JNum (of_nat idx + 1)"
    and "js_get it ''size'' = JObj
              [(''outer_diameter'', dimension (js_get li ''size'') ''od_val'' ''od_unit''),
               (''wall_thickness'', dimension (js_get li ''size'') ''wt_val'' ''wt_unit''),
               (''length'', dimension (js_get li ''size'') ''len_val'' ''len_unit'')]"
  using assms by (auto simp: to_item_def js_prop_def split: if_splits)

lemma falsy_array_items: "\<not> truthy v \<Longrightarrow> array_items v = []"
  by (cases v) auto

lemma to_internal_Inr:
  assumes "to_internal clock pd = Inr items"
  shows "map_items clock (raw_items pd) 0 = Inr items"
  using assms
  by (auto simp: to_internal_def raw_items_def js_prop_def js_or_def falsy_array_items
      split: if_splits sum.splits jsval.splits)

lemma produced_item:
  assumes "to_internal clock pd = Inr items" "i < length items"
  shows "length (raw_items pd) = length items"
    and "to_item (clock i) (raw_items pd ! i) i = Inr (items ! i)"
proof -
  from assms(1) have m: "map_items clock (raw_items pd) 0 = Inr items" by (rule to_internal_Inr)
  then show l: "length (raw_items pd) = length items" by (simp add: map_items_length)
  from map_items_nth [OF m, of i] assms(2) l
  show "to_item (clock i) (raw_items pd ! i) i = Inr (items ! i)" by simp
qed

lemma to_item_shape:
  assumes "to_item now li idx = Inr it"
  shows "it = JObj
          [(''item_id'', js_or (js_get li ''item_id'') (JStr (mint now idx))),
           (''line'', JNum (of_nat idx + 1)),
           (''description'', js_or (js_get li ''description'') (JStr [])),
           (''material_grade'', js_or (js_get li ''material_grade'') (JStr [])),
           (''size'', JObj
              [(''outer_diameter'', dimension (js_get li ''size'') ''od_val'' ''od_unit''),
               (''wall_thickness'', dimension (js_get li ''size'') ''wt_val'' ''wt_unit''),
               (''length'', dimension (js_get li ''size'') ''len_val'' ''len_unit'')]),
           (''quantity'', js_get li ''quantity''),
           (''uom'', js_get li ''uom'')]"
  using assms by (auto simp: to_item_def js_prop_def split: if_splits)

lemma map_items_member:
  assumes "map_items clock lis idx = Inr its" "it \<in> set its"
  shows "\<exists>li i. to_item (clock i) li i = Inr it"
proof -
  from assms(2) obtain k where k: "k < length its" "its ! k = it"
    by (auto simp: in_set_conv_nth)
  with map_items_length [OF assms(1)] have "k < length lis" by simp
  from map_items_nth [OF assms(1) this] k(2)
  have "to_item (clock (idx + k)) (lis ! k) (idx + k) = Inr it" by simp
  then show ?thesis by blast
qed

lemma to_item_dimension:
  assumes "to_item now li idx = Inr it" "(d, vk, uk) \<in> set dimension_keys"
  shows "dimension_of it d = dimension (js_get li ''size'') vk uk"
  using assms(2) to_item_Inr(4) [OF assms(1)]
  by (auto simp: dimension_keys_def dimension_of_def)

lemma dimension_fields:
  "js_get (dimension sz vk uk) ''value'' = js_opt_get sz vk"
  "js_get (dimension sz vk uk) ''unit'' = js_opt_get sz uk"
  by (simp_all add: dimension_def)

lemma item_ids_nth:
  assumes "to_internal clock parsedData = Inr items" "i < length items"
  shows "item_ids items ! i =
     js_or (js_get (raw_items parsedData ! i) ''item_id'') (JStr (mint (clock i) i))"
  using to_item_Inr(2) [OF produced_item(2) [OF assms]] assms(2) by (simp add: item_ids_def)

lemma distinct_filter_nth:
  "distinct (filter P xs) \<Longrightarrow> i < length xs \<Longrightarrow> j < length xs \<Longrightarrow> i \<noteq> j \<Longrightarrow>
   P (xs ! i) \<Longrightarrow> P (xs ! j) \<Longrightarrow> xs ! i \<noteq> xs ! j"
proof (induction xs arbitrary: i j)
  case Nil
  then show ?case by simp
next
  case (Cons x xs)
  show ?case
  proof (cases i)
    case 0
    with Cons.prems obtain j' where j: "j = Suc j'" "j' < length xs" by (cases j) auto
    with Cons.prems 0 have "x \<notin> set (filter P xs)" "xs ! j' \<in> set (filter P xs)" by auto
    with 0 j show ?thesis by auto
  next
    case (Suc i')
    note i = this
    show ?thesis
    proof (cases j)
      case 0
      with Cons.prems i have "x \<notin> set (filter P xs)" "xs ! i' \<in> set (filter P xs)" by auto
      with 0 i show ?thesis by auto
    next
      case (Suc j')
      from Cons.prems(1) have "distinct (filter P xs)" by (simp split: if_splits)
      from Cons.IH [OF this, of i' j'] Cons.prems i Suc show ?thesis by simp
    qed
  qed
qed

lemma map_items_null:
  "JNull \<in> set lis \<Longrightarrow> \<exists>e. map_items clock lis idx = Inl e"
proof (induction lis arbitrary: idx)
  case Nil
  then show ?case by simp
next
  case (Cons li lis)
  show ?case
  proof (cases "li = JNull")
    case True
    then show ?thesis by (simp add: to_item_def js_prop_def nullish_def)
  next
    case False
    with Cons.prems have "JNull \<in> set lis" by simp
    from Cons.IH [OF this, of "Suc idx"] show ?thesis by (auto split: sum.splits)
  qed
qed

lemma to_internal_malformed:
  assumes "nullish pd
     \<or> (truthy (js_get pd ''line_items'') \<and> (\<forall>lis. js_get pd ''line_items'' \<noteq> JArr lis))
     \<or> JNull \<in> set (raw_items pd)"
  shows "\<exists>e. to_internal clock pd = Inl e"
proof -
  consider "nullish pd"
    | "\<not> nullish pd" "truthy (js_get pd ''line_items'')" "\<forall>lis. js_get pd ''line_items'' \<noteq> JArr lis"
    | "\<not> nullish pd" "JNull \<in> set (raw_items pd)" using assms by blast
  then show ?thesis
  proof cases
    case 1
    then show ?thesis by (simp add: to_internal_def js_prop_def)
  next
    case 2
    then show ?thesis
      by (cases "js_get pd ''line_items''") (simp_all add: to_internal_def js_prop_def js_or_def)
  next
    case 3
    then obtain lis where l: "js_get pd ''line_items'' = JArr lis" "JNull \<in> set lis"
      by (cases "js_get pd ''line_items''") (auto simp: raw_items_def)
    with map_items_null [of lis "clock" 0] 3(1) show ?thesis
      by (auto simp: to_internal_def js_prop_def js_or_def)
  qed
qed

lemma to_internal_empty:
  "\<not> nullish pd \<Longrightarrow> \<not> truthy (js_get pd ''line_items'') \<Longrightarrow> to_internal clock pd = Inr []"
  by (simp add: to_internal_def js_prop_def js_or_def)

subsection \<open>The handler, stage by stage\<close>

text \<open>
  A request succeeds exactly when every stage does, and then the line items of
  the record it stores and returns are what the mapping produced from the
  parsed extraction output: the properties of \<open>to_internal\<close> below are
  properties of every successful request.
\<close>

lemma pipeline_Inr:
  assumes "pipeline E req = Inr r"
  shows "\<exists>t pd items. extraction E req = Inr t
           \<and> json_parse E (or_default t ''{}'') = Inr pd
           \<and> to_internal (now_item E) pd = Inr items
           \<and> r = build_result (new_rfq_id E req) pd items"
  using assms by (auto simp: pipeline_def reconcile_def split: sum.splits)

lemma pipeline_line_items:
  assumes "pipeline E req = Inr r"
  shows "\<exists>t pd. extraction E req = Inr t
           \<and> json_parse E (or_default t ''{}'') = Inr pd
           \<and> to_internal (now_item E) pd = Inr (array_items (js_get r ''line_items''))"
proof -
  from pipeline_Inr [OF assms] obtain t pd items where
    "extraction E req = Inr t" "json_parse E (or_default t ''{}'') = Inr pd"
    "to_internal (now_item E) pd = Inr items"
    "r = build_result (new_rfq_id E req) pd items" by blast
  then show ?thesis by (auto simp: build_result_def)
qed

text \<open>Every failure is one of four: before the call, in it, in parsing, in mapping.\<close>

lemma pipeline_Inl:
  assumes "pipeline E req = Inl e"
  shows "prepare E req = Inl e
       \<or> (\<exists>g. prepare E req = Inr g \<and> generate_content E g = Inl e)
       \<or> (\<exists>t. extraction E req = Inr t \<and> json_parse E (or_default t ''{}'') = Inl e)
       \<or> (\<exists>t pd. extraction E req = Inr t \<and> json_parse E (or_default t ''{}'') = Inr pd
              \<and> to_internal (now_item E) pd = Inl e)"
  using assms by (auto simp: pipeline_def reconcile_def extraction_def split: sum.splits)

lemma parse_handler_cases:
  "(\<exists>e. pipeline E req = Inl e
        \<and> parse_handler E req st = (st, Json 500 (JObj [(''error'', JStr (message e))])))
 \<or> (\<exists>r. pipeline E req = Inr r
        \<and> parse_handler E req st = (store_put st (new_rfq_id E req) r, Json 200 r))"
  by (cases "pipeline E req") (simp_all add: parse_handler_def)

lemma not_200_is_failure:
  assumes "status (snd (parse_handler E req st)) \<noteq> 200"
  shows "\<exists>e. pipeline E req = Inl e \<and> fst (parse_handler E req st) = st"
  using assms by (cases "pipeline E req") (simp_all add: parse_handler_def)

subsection \<open>The keys of a result\<close>

lemma js_or_defined [simp]: "js_or a (JStr s) \<noteq> JUndefined"
  by (cases a) (simp_all add: js_or_def)

lemma item_keys:
  assumes "to_item now li idx = Inr it"
  shows "keys it = [''item_id'', ''line'', ''description'', ''material_grade'', ''size'',
                    ''quantity'', ''uom'']"
    and "keys (js_get it ''size'') = [''outer_diameter'', ''wall_thickness'', ''length'']"
    and "js_get it ''quantity'' = js_get li ''quantity''"
    and "js_get it ''uom'' = js_get li ''uom''"
    and "keys (to_json it) =
           [''item_id'', ''line'', ''description'', ''material_grade'', ''size'']
           @ filter (\<lambda>k. js_get it k \<noteq> JUndefined) [''quantity'', ''uom'']"
  by (simp_all add: to_item_shape [OF assms])

lemma dimension_keys_of_item:
  assumes "to_item now li idx = Inr it" "(d, vk, uk) \<in> set dimension_keys"
  shows "keys (dimension_of it d) = [''value'', ''unit'']"
    and "keys (dimension_of (to_json it) d) =
           filter (\<lambda>k. js_get (dimension_of it d) k \<noteq> JUndefined) [''value'', ''unit'']"
  using assms(2)
  by (auto simp: to_item_shape [OF assms(1)] dimension_keys_def dimension_of_def dimension_def)

lemma commercial_keys:
  "keys (commercial_of pd) = [''destination'', ''incoterm'', ''paymentTerm'', ''otherRequirements'']"
  "keys (to_json (commercial_of pd)) =
     [''destination'', ''incoterm'', ''paymentTerm'', ''otherRequirements'']"
  by (simp_all add: commercial_of_def)

lemma commercial_defined: "commercial_of pd \<noteq> JUndefined"
  by (simp add: commercial_of_def)

lemma result_keys:
  "keys (build_result rid pd items) = [''rfq_id'', ''project_name'', ''commercial'', ''line_items'']"
  "js_get (build_result rid pd items) ''commercial'' = commercial_of pd"
  "js_get (build_result rid pd items) ''line_items'' = JArr items"
  "js_get (build_result rid pd items) ''project_name'' = js_get pd ''project_name''"
  "js_get (to_json (build_result rid pd items)) ''commercial'' = to_json (commercial_of pd)"
  "keys (to_json (build_result rid pd items)) =
     ''rfq_id'' # filter (\<lambda>k. js_get pd k \<noteq> JUndefined) [''project_name'']
       @ [''commercial'', ''line_items'']"
  by (simp_all add: build_result_def commercial_defined)

lemma item_defined: "to_item now li idx = Inr it \<Longrightarrow> it \<noteq> JUndefined"
  by (auto simp: to_item_def split: sum.splits)

lemma result_items_json:
  assumes "\<forall>it \<in> set items. it \<noteq> JUndefined"
  shows "array_items (js_get (to_json (build_result rid pd items)) ''line_items'')
          = map to_json items"
  using assms by (simp add: build_result_def commercial_defined)

lemma item_keys_raw:
  assumes "to_item now li idx = Inr it"
  shows "keys (to_json it) =
           [''item_id'', ''line'', ''description'', ''material_grade'', ''size'']
           @ filter (\<lambda>k. js_get li k \<noteq> JUndefined) [''quantity'', ''uom'']"
  by (simp add: to_item_shape [OF assms])

lemma dimension_of_item_raw:
  assumes "to_item now li idx = Inr it" "(d, vk, uk) \<in> set dimension_keys"
  shows "value_of it d = js_opt_get (js_get li ''size'') vk"
    and "unit_of it d = js_opt_get (js_get li ''size'') uk"
    and "keys (dimension_of (to_json it) d) =
           (if js_opt_get (js_get li ''size'') vk = JUndefined then [] else [''value''])
           @ (if js_opt_get (js_get li ''size'') uk = JUndefined then [] else [''unit''])"
  using assms(2)
  by (auto simp: to_item_shape [OF assms(1)] dimension_keys_def dimension_of_def dimension_def
      value_of_def unit_of_def)

lemma commercial_values:
  assumes "(k, src) \<in> set [(''destination'', ''destination''), (''incoterm'', ''incoterm''),
             (''paymentTerm'', ''payment_terms''), (''otherRequirements'', ''other_requirements'')]"
  shows "js_get (commercial_of pd) k = js_or (js_opt_get (js_get pd ''commercial'') src) (JStr [])"
  using assms by (auto simp: commercial_of_def)

subsection \<open>Reading the store back\<close>

lemma store_ok_initial: "store_ok rfqStore0"
  by (simp add: store_ok_def rfqStore0_def)

lemma store_ok_put: "store_ok st \<Longrightarrow> store_ok (store_put st k v)"
  by (simp add: store_ok_def store_put_def)

lemma store_ok_handler: "store_ok st \<Longrightarrow> store_ok (fst (parse_handler E req st))"
  by (cases "pipeline E req") (simp_all add: parse_handler_def store_ok_put)

lemma store_get_put: "store_ok st \<Longrightarrow> store_get (store_put st k v) k = Value v"
  by (simp add: store_ok_def store_get_def store_put_def)

lemma get_rfq_put_result:
  "store_ok st \<Longrightarrow>
   get_rfq (store_put st k (build_result rid pd items)) k = Json 200 (build_result rid pd items)"
  by (simp add: get_rfq_def store_get_put build_result_def)

subsection \<open>Evaluating the examples\<close>

lemmas mapping_eval =
  to_internal_def js_prop_def nullish_def js_or_def to_item_def dimension_def js_opt_get_def
  mint_def digits_small digits_large digit_char_def fixed_clock_def raw_items_def

lemmas handler_eval =
  example_env_def example_request_def parse_table_def current_items_def isEditMode_def
  parse_handler_def pipeline_def extraction_def prepare_def reconcile_def build_result_def
  commercial_of_def or_default_def new_rfq_id_def slice_last4_def store_put_def rfqStore0_def

section \<open>The claims\<close>

subsection \<open>C1: a missing or malformed extraction output\<close>

text \<open>
  C1 as stated: whenever the extraction output is absent or does not have the
  expected shape (an empty text, no \<^verbatim>\<open>line_items\<close>), the request fails with a
  MalformedExtractionOutput error and never stores or returns an RFQ with an
  empty line-item list. The handler does otherwise: when the service returns no
  text, line 149 parses \<^verbatim>\<open>"{}"\<close> instead, line 152 maps \<^verbatim>\<open>[]\<close>, and the request
  succeeds, storing and returning an RFQ without line items.
\<close>

theorem empty_output_stored_counterexample:
  "snd (parse_handler (example_env [(''{}'', JObj [])] (Inr None)) (example_request None) rfqStore0)
   = Json 200
        (JObj [(''rfq_id'', JStr ''RFQ-1234''), (''project_name'', JUndefined),
               (''commercial'', JObj [(''destination'', JStr []), (''incoterm'', JStr []),
                  (''paymentTerm'', JStr []), (''otherRequirements'', JStr [])]),
               (''line_items'', JArr [])])
   \<and> get_rfq rfqStore0 ''RFQ-1234'' = Json 404 (JObj [(''error'', JStr ''Not found'')])
   \<and> get_rfq
        (fst (parse_handler (example_env [(''{}'', JObj [])] (Inr None)) (example_request None)
           rfqStore0))
        ''RFQ-1234''
     = Json 200
        (JObj [(''rfq_id'', JStr ''RFQ-1234''), (''project_name'', JUndefined),
               (''commercial'', JObj [(''destination'', JStr []), (''incoterm'', JStr []),
                  (''paymentTerm'', JStr []), (''otherRequirements'', JStr [])]),
               (''line_items'', JArr [])])"
  by (simp add: handler_eval mapping_eval get_rfq_def store_get_def inherited_def
      object_prototype_methods_def)

text \<open>
  C1, amended. Let the extraction service return a response. An absent or empty
  text is read as \<^verbatim>\<open>{}\<close>. If \<^verbatim>\<open>JSON.parse\<close> rejects the text, or the parsed value is
  \<^verbatim>\<open>null\<close>, or its \<^verbatim>\<open>line_items\<close> is a truthy value that is not an array, or an
  element of \<^verbatim>\<open>line_items\<close> is \<^verbatim>\<open>null\<close>, the request fails: status 500 with the
  message of the error (the code has no MalformedExtractionOutput kind), and the
  store is as before. If the text parses to a value other than \<^verbatim>\<open>null\<close> whose
  \<^verbatim>\<open>line_items\<close> is absent or falsy, the request succeeds: an RFQ with an empty
  line-item list is returned, and it is stored, so that the store and Get RFQ
  give it back under its identifier.
\<close>

theorem extraction_output_handling:
  assumes "extraction E req = Inr t"
  shows "((t = None \<or> t = Some []) \<longrightarrow> or_default t ''{}'' = ''{}'')
    \<and> (\<forall>e. json_parse E (or_default t ''{}'') = Inl e \<longrightarrow>
          parse_handler E req st = (st, Json 500 (JObj [(''error'', JStr (message e))])))
    \<and> (\<forall>pd. json_parse E (or_default t ''{}'') = Inr pd \<longrightarrow>
          (nullish pd
           \<or> (truthy (js_get pd ''line_items'') \<and> (\<forall>lis. js_get pd ''line_items'' \<noteq> JArr lis))
           \<or> JNull \<in> set (raw_items pd)) \<longrightarrow>
          (\<exists>e. parse_handler E req st = (st, Json 500 (JObj [(''error'', JStr (message e))]))))
    \<and> (\<forall>pd. json_parse E (or_default t ''{}'') = Inr pd \<longrightarrow>
          \<not> nullish pd \<longrightarrow> \<not> truthy (js_get pd ''line_items'') \<longrightarrow>
          parse_handler E req st =
            (store_put st (new_rfq_id E req) (build_result (new_rfq_id E req) pd []),
             Json 200 (build_result (new_rfq_id E req) pd []))
        \<and> (store_ok st \<longrightarrow>
              store_get (fst (parse_handler E req st)) (new_rfq_id E req)
                = Value (build_result (new_rfq_id E req) pd [])
            \<and> get_rfq (fst (parse_handler E req st)) (new_rfq_id E req)
                = Json 200 (build_result (new_rfq_id E req) pd [])))"
proof (intro conjI allI impI)
  assume "t = None \<or> t = Some []"
  then show "or_default t ''{}'' = ''{}''" by (auto simp: or_default_def)
next
  fix e assume "json_parse E (or_default t ''{}'') = Inl e"
  with assms show "parse_handler E req st = (st, Json 500 (JObj [(''error'', JStr (message e))]))"
    by (simp add: parse_handler_def pipeline_def reconcile_def)
next
  fix pd assume p: "json_parse E (or_default t ''{}'') = Inr pd"
    and m: "nullish pd
           \<or> (truthy (js_get pd ''line_items'') \<and> (\<forall>lis. js_get pd ''line_items'' \<noteq> JArr lis))
           \<or> JNull \<in> set (raw_items pd)"
  from to_internal_malformed [OF m] obtain e where "to_internal (now_item E) pd = Inl e" by blast
  with assms p have "parse_handler E req st = (st, Json 500 (JObj [(''error'', JStr (message e))]))"
    by (simp add: parse_handler_def pipeline_def reconcile_def)
  then show "\<exists>e. parse_handler E req st = (st, Json 500 (JObj [(''error'', JStr (message e))]))" ..
next
  fix pd assume p: "json_parse E (or_default t ''{}'') = Inr pd"
    and "\<not> nullish pd" "\<not> truthy (js_get pd ''line_items'')"
  then have "to_internal (now_item E) pd = Inr []" by (simp add: to_internal_empty)
  with assms p show h: "parse_handler E req st =
            (store_put st (new_rfq_id E req) (build_result (new_rfq_id E req) pd []),
             Json 200 (build_result (new_rfq_id E req) pd []))"
    by (simp add: parse_handler_def pipeline_def reconcile_def)
  assume ok: "store_ok st"
  from ok show "store_get (fst (parse_handler E req st)) (new_rfq_id E req)
                = Value (build_result (new_rfq_id E req) pd [])"
    by (simp add: h store_get_put)
  from ok show "get_rfq (fst (parse_handler E req st)) (new_rfq_id E req)
                = Json 200 (build_result (new_rfq_id E req) pd [])"
    by (simp add: h get_rfq_put_result)
qed

theorem extraction_output_handling_witness:
  "extraction (example_env [(''{}'', JObj [])] (Inr (Some ''<html>''))) (example_request None)
     = Inr (Some ''<html>'')
   \<and> json_parse (example_env [(''{}'', JObj [])] (Inr (Some ''<html>'')))
         (or_default (Some ''<html>'') ''{}'')
     = Inl (SyntaxError ''Unexpected token in JSON'')
   \<and> parse_handler (example_env [(''{}'', JObj [])] (Inr (Some ''<html>''))) (example_request None)
         rfqStore0
     = (rfqStore0, Json 500 (JObj [(''error'', JStr ''Unexpected token in JSON'')]))
   \<and> extraction (example_env [(''{}'', JObj [])] (Inr (Some []))) (example_request None)
     = Inr (Some [])
   \<and> json_parse (example_env [(''{}'', JObj [])] (Inr (Some []))) (or_default (Some []) ''{}'')
     = Inr (JObj [])
   \<and> store_ok rfqStore0
   \<and> status (snd (parse_handler (example_env [(''{}'', JObj [])] (Inr (Some [])))
         (example_request None) rfqStore0)) = 200
   \<and> response_items (snd (parse_handler (example_env [(''{}'', JObj [])] (Inr (Some [])))
         (example_request None) rfqStore0)) = []
   \<and> status (get_rfq (fst (parse_handler (example_env [(''{}'', JObj [])] (Inr (Some [])))
         (example_request None) rfqStore0)) ''RFQ-1234'') = 200
   \<and> js_get (the (body (get_rfq (fst (parse_handler (example_env [(''{}'', JObj [])]
         (Inr (Some []))) (example_request None) rfqStore0)) ''RFQ-1234''))) ''line_items''
     = JArr []"
proof -
  let ?E = "example_env [(''{}'', JObj [])] (Inr (Some ''<html>''))"
  let ?F = "example_env [(''{}'', JObj [])] (Inr (Some []))"
  let ?R = "example_request None"
  have x: "extraction ?E ?R = Inr (Some ''<html>'')"
    by (simp add: example_env_def example_request_def extraction_def prepare_def isEditMode_def
        current_items_def)
  have p: "json_parse ?E (or_default (Some ''<html>'') ''{}'')
      = Inl (SyntaxError ''Unexpected token in JSON'')"
    by (simp add: example_env_def parse_table_def or_default_def)
  from extraction_output_handling [OF x, of rfqStore0] p
  have a: "parse_handler ?E ?R rfqStore0
      = (rfqStore0, Json 500 (JObj [(''error'', JStr ''Unexpected token in JSON'')]))"
    by simp
  have y: "extraction ?F ?R = Inr (Some [])"
    by (simp add: example_env_def example_request_def extraction_def prepare_def isEditMode_def
        current_items_def)
  have q: "json_parse ?F (or_default (Some []) ''{}'') = Inr (JObj [])"
    by (simp add: example_env_def parse_table_def or_default_def)
  have n: "\<not> nullish (JObj [])" "\<not> truthy (js_get (JObj []) ''line_items'')"
    by (simp_all add: nullish_def)
  have ok: "store_ok rfqStore0" by (rule store_ok_initial)
  have id: "new_rfq_id ?F ?R = ''RFQ-1234''"
    by (simp add: handler_eval mapping_eval)
  from extraction_output_handling [OF y, of rfqStore0] q n ok
  have b: "parse_handler ?F ?R rfqStore0 =
      (store_put rfqStore0 (new_rfq_id ?F ?R) (build_result (new_rfq_id ?F ?R) (JObj []) []),
       Json 200 (build_result (new_rfq_id ?F ?R) (JObj []) []))"
    and g: "get_rfq (fst (parse_handler ?F ?R rfqStore0)) (new_rfq_id ?F ?R)
      = Json 200 (build_result (new_rfq_id ?F ?R) (JObj []) [])"
    by blast+
  have s: "status (snd (parse_handler ?F ?R rfqStore0)) = 200" by (subst b) simp
  have i: "response_items (snd (parse_handler ?F ?R rfqStore0)) = []"
    by (subst b) (simp add: build_result_def)
  from g have g': "get_rfq (fst (parse_handler ?F ?R rfqStore0)) ''RFQ-1234''
      = Json 200 (build_result ''RFQ-1234'' (JObj []) [])"
    by (simp only: id)
  have gs: "status (get_rfq (fst (parse_handler ?F ?R rfqStore0)) ''RFQ-1234'') = 200"
    by (subst g') simp
  have gi: "js_get (the (body (get_rfq (fst (parse_handler ?F ?R rfqStore0)) ''RFQ-1234'')))
      ''line_items'' = JArr []"
    by (subst g') (simp add: build_result_def commercial_defined)
  from x p a y q ok s i gs gi show ?thesis by (intro conjI)
qed

subsection \<open>C2: the units of the dimensions\<close>

text \<open>
  C2 as stated: in every produced line item, the unit of each of the three
  Dimension fields is unset or one of mm, m, in, ft, pcs, whatever the raw unit
  was. The mapping has no normalising step: a raw unit \<^verbatim>\<open>cm\<close> comes out as \<^verbatim>\<open>cm\<close>.
\<close>

theorem unit_outside_set_counterexample:
  "length (produced (to_internal (fixed_clock 5) (one_pipe ''cm''))) = 1
   \<and> unit_of (produced (to_internal (fixed_clock 5) (one_pipe ''cm'')) ! 0) ''outer_diameter''
       = JStr ''cm''
   \<and> \<not> unit_ok (JStr ''cm'')"
  by (simp add: one_pipe_def mapping_eval unit_of_def dimension_of_def unit_ok_def normal_units_def)

text \<open>
  C2, amended. For every line item produced by the mapping and each of its three
  Dimension fields, the unit is the raw unit of the extraction output
  (\<^verbatim>\<open>od_unit\<close>, \<^verbatim>\<open>wt_unit\<close>, \<^verbatim>\<open>len_unit\<close> of the item's \<^verbatim>\<open>size\<close>), copied as it is,
  and \<^verbatim>\<open>undefined\<close> when \<^verbatim>\<open>size\<close> or the key is absent. Hence the unit is unset or
  one of mm, m, in, ft, pcs exactly when the raw unit is.
\<close>

theorem units_copied_verbatim:
  assumes "to_internal clock parsedData = Inr items" "i < length items"
    and "(d, vk, uk) \<in> set dimension_keys"
  shows "unit_of (items ! i) d = js_opt_get (js_get (raw_items parsedData ! i) ''size'') uk
    \<and> (unit_ok (unit_of (items ! i) d)
         \<longleftrightarrow> unit_ok (js_opt_get (js_get (raw_items parsedData ! i) ''size'') uk))"
proof -
  from produced_item(2) [OF assms(1,2)]
  have "dimension_of (items ! i) d = dimension (js_get (raw_items parsedData ! i) ''size'') vk uk"
    using assms(3) by (rule to_item_dimension)
  then show ?thesis by (simp add: unit_of_def dimension_fields)
qed

theorem units_copied_verbatim_witness:
  "to_internal (fixed_clock 5) (one_pipe ''in'')
     = Inr (produced (to_internal (fixed_clock 5) (one_pipe ''in'')))
   \<and> 0 < length (produced (to_internal (fixed_clock 5) (one_pipe ''in'')))
   \<and> (''outer_diameter'', ''od_val'', ''od_unit'') \<in> set dimension_keys
   \<and> unit_of (produced (to_internal (fixed_clock 5) (one_pipe ''in'')) ! 0) ''outer_diameter''
       = JStr ''in''
   \<and> unit_ok (unit_of (produced (to_internal (fixed_clock 5) (one_pipe ''in'')) ! 0)
        ''outer_diameter'')"
proof -
  have h1: "to_internal (fixed_clock 5) (one_pipe ''in'')
     = Inr (produced (to_internal (fixed_clock 5) (one_pipe ''in'')))"
    by (simp add: one_pipe_def mapping_eval)
  have h2: "0 < length (produced (to_internal (fixed_clock 5) (one_pipe ''in'')))"
    by (simp add: one_pipe_def mapping_eval)
  have h3: "(''outer_diameter'', ''od_val'', ''od_unit'') \<in> set dimension_keys"
    by (simp add: dimension_keys_def)
  have r: "js_opt_get (js_get (raw_items (one_pipe ''in'') ! 0) ''size'') ''od_unit'' = JStr ''in''"
    by (simp add: one_pipe_def mapping_eval)
  have ok: "unit_ok (JStr ''in'')" by (simp add: unit_ok_def normal_units_def)
  from units_copied_verbatim [OF h1 h2 h3] r ok h1 h2 h3 show ?thesis by simp
qed

subsection \<open>C3: an unrecognised unit\<close>

text \<open>
  C3 as stated: a raw dimension whose unit string is outside the set (and no
  alias of a member) keeps its numeric value and comes out with the unit unset.
  The value is kept, but so is the unit: 10 \<^verbatim>\<open>furlong\<close> comes out as 10
  \<^verbatim>\<open>furlong\<close>.
\<close>

theorem unknown_unit_kept_counterexample:
  "length (produced (to_internal (fixed_clock 5) (one_pipe ''furlong''))) = 1
   \<and> value_of (produced (to_internal (fixed_clock 5) (one_pipe ''furlong'')) ! 0)
        ''outer_diameter'' = JNum 10
   \<and> unit_of (produced (to_internal (fixed_clock 5) (one_pipe ''furlong'')) ! 0)
        ''outer_diameter'' = JStr ''furlong''
   \<and> ''furlong'' \<notin> set normal_units
   \<and> \<not> nullish (JStr ''furlong'')"
  by (simp add: one_pipe_def mapping_eval value_of_def unit_of_def dimension_of_def
      normal_units_def)

text \<open>
  C3, amended. For every raw extracted dimension whose unit is a string outside
  mm, m, in, ft, pcs, the produced Dimension has the raw value and the raw unit
  string, both copied as they are: the unit is not unset, and no default or
  guessed unit is put in its place.
\<close>

theorem dimension_copied_verbatim:
  assumes "to_internal clock parsedData = Inr items" "i < length items"
    and "(d, vk, uk) \<in> set dimension_keys"
    and "js_opt_get (js_get (raw_items parsedData ! i) ''size'') uk = JStr u"
    and "u \<notin> set normal_units"
  shows "value_of (items ! i) d = js_opt_get (js_get (raw_items parsedData ! i) ''size'') vk
       \<and> unit_of (items ! i) d = JStr u
       \<and> \<not> nullish (unit_of (items ! i) d)"
proof -
  from produced_item(2) [OF assms(1,2)]
  have "dimension_of (items ! i) d = dimension (js_get (raw_items parsedData ! i) ''size'') vk uk"
    using assms(3) by (rule to_item_dimension)
  with assms(4) show ?thesis
    by (simp add: value_of_def unit_of_def dimension_fields nullish_def)
qed

theorem dimension_copied_verbatim_witness:
  "to_internal (fixed_clock 5) (one_pipe ''cubit'')
     = Inr (produced (to_internal (fixed_clock 5) (one_pipe ''cubit'')))
   \<and> 0 < length (produced (to_internal (fixed_clock 5) (one_pipe ''cubit'')))
   \<and> (''outer_diameter'', ''od_val'', ''od_unit'') \<in> set dimension_keys
   \<and> js_opt_get (js_get (raw_items (one_pipe ''cubit'') ! 0) ''size'') ''od_unit'' = JStr ''cubit''
   \<and> ''cubit'' \<notin> set normal_units
   \<and> value_of (produced (to_internal (fixed_clock 5) (one_pipe ''cubit'')) ! 0)
        ''outer_diameter'' = JNum 10
   \<and> unit_of (produced (to_internal (fixed_clock 5) (one_pipe ''cubit'')) ! 0)
        ''outer_diameter'' = JStr ''cubit''"
proof -
  have h1: "to_internal (fixed_clock 5) (one_pipe ''cubit'')
     = Inr (produced (to_internal (fixed_clock 5) (one_pipe ''cubit'')))"
    by (simp add: one_pipe_def mapping_eval)
  have h2: "0 < length (produced (to_internal (fixed_clock 5) (one_pipe ''cubit'')))"
    by (simp add: one_pipe_def mapping_eval)
  have h3: "(''outer_diameter'', ''od_val'', ''od_unit'') \<in> set dimension_keys"
    by (simp add: dimension_keys_def)
  have h4: "js_opt_get (js_get (raw_items (one_pipe ''cubit'') ! 0) ''size'') ''od_unit''
      = JStr ''cubit''"
    by (simp add: one_pipe_def mapping_eval)
  have h5: "''cubit'' \<notin> set normal_units" by (simp add: normal_units_def)
  have v: "js_opt_get (js_get (raw_items (one_pipe ''cubit'') ! 0) ''size'') ''od_val'' = JNum 10"
    by (simp add: one_pipe_def mapping_eval)
  from dimension_copied_verbatim [OF h1 h2 h3 h4 h5] v h1 h2 h3 h4 h5 show ?thesis by simp
qed

subsection \<open>C4: the keys of the record\<close>

text \<open>
  C4 as stated: in every RFQ produced and serialised by a successful request,
  the keys \<^verbatim>\<open>destination\<close>, \<^verbatim>\<open>incoterm\<close>, \<^verbatim>\<open>payment_term\<close>, \<^verbatim>\<open>other_requirements\<close> of
  \<^verbatim>\<open>commercial\<close> and every optional key of a line item, \<^verbatim>\<open>quantity\<close> and \<^verbatim>\<open>uom\<close>
  among them, are present. For an extracted item without any field, the
  response body has neither \<^verbatim>\<open>quantity\<close> nor \<^verbatim>\<open>uom\<close> (nor \<^verbatim>\<open>project_name\<close>, nor the
  \<^verbatim>\<open>value\<close> and \<^verbatim>\<open>unit\<close> of a dimension): their value is \<^verbatim>\<open>undefined\<close>, which
  \<^verbatim>\<open>JSON.stringify\<close> leaves out. The commercial keys are \<^verbatim>\<open>paymentTerm\<close> and
  \<^verbatim>\<open>otherRequirements\<close>.
\<close>

theorem omitted_keys_counterexample:
  "body (snd (parse_handler bare_item_env (example_request None) rfqStore0))
   = Some (JObj
       [(''rfq_id'', JStr ''RFQ-1234''),
        (''commercial'', JObj [(''destination'', JStr []), (''incoterm'', JStr []),
           (''paymentTerm'', JStr []), (''otherRequirements'', JStr [])]),
        (''line_items'', JArr
           [JObj [(''item_id'', JStr ''L1700000001234-0''), (''line'', JNum 1),
                  (''description'', JStr []), (''material_grade'', JStr []),
                  (''size'', JObj [(''outer_diameter'', JObj []), (''wall_thickness'', JObj []),
                     (''length'', JObj [])])]])])"
  by (simp add: bare_item_env_def bare_item_text_def handler_eval mapping_eval)

text \<open>
  C4, amended. For every RFQ record \<open>r\<close> produced by a successful request from
  the parsed extraction output: \<open>r\<close> has the keys \<^verbatim>\<open>rfq_id\<close>, \<^verbatim>\<open>project_name\<close>,
  \<^verbatim>\<open>commercial\<close>, \<^verbatim>\<open>line_items\<close>, and its serialisation has them all but
  \<^verbatim>\<open>project_name\<close>, which is there exactly when the extraction output has one
  that is not \<^verbatim>\<open>undefined\<close>; \<^verbatim>\<open>commercial\<close> has the keys \<^verbatim>\<open>destination\<close>,
  \<^verbatim>\<open>incoterm\<close>, \<^verbatim>\<open>paymentTerm\<close>, \<^verbatim>\<open>otherRequirements\<close>, in the record and in its
  serialisation, each with the truthy value of the extraction output or the
  empty string; there is one line item for each raw item, with the keys
  \<^verbatim>\<open>item_id\<close>, \<^verbatim>\<open>line\<close>, \<^verbatim>\<open>description\<close>, \<^verbatim>\<open>material_grade\<close>, \<^verbatim>\<open>size\<close>, \<^verbatim>\<open>quantity\<close>,
  \<^verbatim>\<open>uom\<close> in the record, \<^verbatim>\<open>quantity\<close> and \<^verbatim>\<open>uom\<close> being those of the raw item, and
  in its serialisation the first five always, \<^verbatim>\<open>quantity\<close> and \<^verbatim>\<open>uom\<close> exactly
  when the raw item gives them a value other than \<^verbatim>\<open>undefined\<close>; \<^verbatim>\<open>size\<close> has its
  three Dimension keys, and each Dimension has \<^verbatim>\<open>value\<close> and \<^verbatim>\<open>unit\<close> in the
  record, those of the raw \<^verbatim>\<open>size\<close>, and in its serialisation each of the two
  exactly when the raw \<^verbatim>\<open>size\<close> gives it a value other than \<^verbatim>\<open>undefined\<close>.
\<close>

theorem record_keys:
  assumes "pipeline E req = Inr r"
  shows "\<exists>t pd. extraction E req = Inr t \<and> json_parse E (or_default t ''{}'') = Inr pd
    \<and> keys r = [''rfq_id'', ''project_name'', ''commercial'', ''line_items'']
    \<and> js_get r ''project_name'' = js_get pd ''project_name''
    \<and> keys (to_json r) =
        ''rfq_id'' # filter (\<lambda>k. js_get pd k \<noteq> JUndefined) [''project_name'']
          @ [''commercial'', ''line_items'']
    \<and> keys (js_get r ''commercial'')
        = [''destination'', ''incoterm'', ''paymentTerm'', ''otherRequirements'']
    \<and> keys (js_get (to_json r) ''commercial'')
        = [''destination'', ''incoterm'', ''paymentTerm'', ''otherRequirements'']
    \<and> (\<forall>(k, src) \<in> set [(''destination'', ''destination''), (''incoterm'', ''incoterm''),
             (''paymentTerm'', ''payment_terms''), (''otherRequirements'', ''other_requirements'')].
          js_get (js_get r ''commercial'') k
            = js_or (js_opt_get (js_get pd ''commercial'') src) (JStr []))
    \<and> length (array_items (js_get r ''line_items'')) = length (raw_items pd)
    \<and> array_items (js_get (to_json r) ''line_items'')
        = map to_json (array_items (js_get r ''line_items''))
    \<and> (\<forall>i < length (raw_items pd).
          keys (array_items (js_get r ''line_items'') ! i)
            = [''item_id'', ''line'', ''description'', ''material_grade'', ''size'',
               ''quantity'', ''uom'']
        \<and> js_get (array_items (js_get r ''line_items'') ! i) ''quantity''
            = js_get (raw_items pd ! i) ''quantity''
        \<and> js_get (array_items (js_get r ''line_items'') ! i) ''uom''
            = js_get (raw_items pd ! i) ''uom''
        \<and> keys (to_json (array_items (js_get r ''line_items'') ! i)) =
            [''item_id'', ''line'', ''description'', ''material_grade'', ''size'']
            @ filter (\<lambda>k. js_get (raw_items pd ! i) k \<noteq> JUndefined) [''quantity'', ''uom'']
        \<and> keys (js_get (array_items (js_get r ''line_items'') ! i) ''size'')
            = [''outer_diameter'', ''wall_thickness'', ''length'']
        \<and> (\<forall>(d, vk, uk) \<in> set dimension_keys.
              keys (dimension_of (array_items (js_get r ''line_items'') ! i) d)
                = [''value'', ''unit'']
            \<and> value_of (array_items (js_get r ''line_items'') ! i) d
                = js_opt_get (js_get (raw_items pd ! i) ''size'') vk
            \<and> unit_of (array_items (js_get r ''line_items'') ! i) d
                = js_opt_get (js_get (raw_items pd ! i) ''size'') uk
            \<and> keys (dimension_of (to_json (array_items (js_get r ''line_items'') ! i)) d) =
                (if js_opt_get (js_get (raw_items pd ! i) ''size'') vk = JUndefined
                 then [] else [''value''])
                @ (if js_opt_get (js_get (raw_items pd ! i) ''size'') uk = JUndefined
                   then [] else [''unit''])))"
proof -
  from pipeline_Inr [OF assms] obtain t pd items where
    x: "extraction E req = Inr t" and
    p: "json_parse E (or_default t ''{}'') = Inr pd" and
    i: "to_internal (now_item E) pd = Inr items" and
    r: "r = build_result (new_rfq_id E req) pd items" by blast
  from to_internal_Inr [OF i] have m: "map_items (now_item E) (raw_items pd) 0 = Inr items" .
  have len: "length items = length (raw_items pd)" using m by (simp add: map_items_length)
  have g: "array_items (js_get r ''line_items'') = items" by (simp add: r result_keys)
  have item: "\<exists>li idx. to_item (now_item E idx) li idx = Inr it" if "it \<in> set items" for it
    using map_items_member [OF m that] .
  have defined: "\<forall>it \<in> set items. it \<noteq> JUndefined"
    using item item_defined by blast
  have a: "keys r = [''rfq_id'', ''project_name'', ''commercial'', ''line_items'']"
    by (simp add: r result_keys)
  have a': "js_get r ''project_name'' = js_get pd ''project_name''"
    by (simp add: r result_keys)
  have b: "keys (to_json r) =
        ''rfq_id'' # filter (\<lambda>k. js_get pd k \<noteq> JUndefined) [''project_name'']
          @ [''commercial'', ''line_items'']"
    by (simp add: r result_keys)
  have c: "keys (js_get r ''commercial'')
        = [''destination'', ''incoterm'', ''paymentTerm'', ''otherRequirements'']"
    by (simp add: r result_keys commercial_keys)
  have d: "keys (js_get (to_json r) ''commercial'')
        = [''destination'', ''incoterm'', ''paymentTerm'', ''otherRequirements'']"
    by (simp add: r result_keys commercial_keys)
  have cv: "\<forall>(k, src) \<in> set [(''destination'', ''destination''), (''incoterm'', ''incoterm''),
             (''paymentTerm'', ''payment_terms''), (''otherRequirements'', ''other_requirements'')].
          js_get (js_get r ''commercial'') k
            = js_or (js_opt_get (js_get pd ''commercial'') src) (JStr [])"
    using commercial_values [of _ _ pd] by (auto simp: r result_keys)
  have e: "array_items (js_get (to_json r) ''line_items'')
        = map to_json (array_items (js_get r ''line_items''))"
    by (simp add: r result_items_json [OF defined] result_keys)
  have f: "keys (items ! i)
            = [''item_id'', ''line'', ''description'', ''material_grade'', ''size'',
               ''quantity'', ''uom'']
        \<and> js_get (items ! i) ''quantity'' = js_get (raw_items pd ! i) ''quantity''
        \<and> js_get (items ! i) ''uom'' = js_get (raw_items pd ! i) ''uom''
        \<and> keys (to_json (items ! i)) =
            [''item_id'', ''line'', ''description'', ''material_grade'', ''size'']
            @ filter (\<lambda>k. js_get (raw_items pd ! i) k \<noteq> JUndefined) [''quantity'', ''uom'']
        \<and> keys (js_get (items ! i) ''size'')
            = [''outer_diameter'', ''wall_thickness'', ''length'']
        \<and> (\<forall>(d, vk, uk) \<in> set dimension_keys.
              keys (dimension_of (items ! i) d) = [''value'', ''unit'']
            \<and> value_of (items ! i) d = js_opt_get (js_get (raw_items pd ! i) ''size'') vk
            \<and> unit_of (items ! i) d = js_opt_get (js_get (raw_items pd ! i) ''size'') uk
            \<and> keys (dimension_of (to_json (items ! i)) d) =
                (if js_opt_get (js_get (raw_items pd ! i) ''size'') vk = JUndefined
                 then [] else [''value''])
                @ (if js_opt_get (js_get (raw_items pd ! i) ''size'') uk = JUndefined
                   then [] else [''unit'']))"
    if "i < length (raw_items pd)" for i
  proof -
    from that len have "i < length items" by simp
    from produced_item(2) [OF i this]
    have t: "to_item (now_item E i) (raw_items pd ! i) i = Inr (items ! i)" .
    from item_keys(1,3,4,2) [OF t] item_keys_raw [OF t] dimension_keys_of_item(1) [OF t]
      dimension_of_item_raw [OF t]
    show ?thesis by blast
  qed
  from x p a a' b c d cv len e f show ?thesis unfolding g by blast
qed

theorem record_keys_witness:
  "pipeline two_items_env (example_request None)
     = Inr (build_result ''RFQ-1234'' two_items
         (produced (to_internal (fixed_clock 1700000001234) two_items)))
   \<and> keys (to_json (build_result ''RFQ-1234'' two_items
         (produced (to_internal (fixed_clock 1700000001234) two_items))))
     = [''rfq_id'', ''project_name'', ''commercial'', ''line_items'']
   \<and> keys (js_get (to_json (build_result ''RFQ-1234'' two_items
         (produced (to_internal (fixed_clock 1700000001234) two_items)))) ''commercial'')
     = [''destination'', ''incoterm'', ''paymentTerm'', ''otherRequirements'']
   \<and> keys (to_json (produced (to_internal (fixed_clock 1700000001234) two_items) ! 0))
     = [''item_id'', ''line'', ''description'', ''material_grade'', ''size'', ''quantity'', ''uom'']
   \<and> keys (to_json (produced (to_internal (fixed_clock 1700000001234) two_items) ! 1))
     = [''item_id'', ''line'', ''description'', ''material_grade'', ''size'']
   \<and> js_get (produced (to_internal (fixed_clock 1700000001234) two_items) ! 0) ''quantity''
     = JNum 50"
proof -
  let ?items = "produced (to_internal (fixed_clock 1700000001234) two_items)"
  let ?r = "build_result ''RFQ-1234'' two_items ?items"
  have h: "pipeline two_items_env (example_request None) = Inr ?r"
    by (simp add: two_items_env_def two_items_text_def two_items_def handler_eval mapping_eval)
  have x: "extraction two_items_env (example_request None) = Inr (Some two_items_text)"
    by (simp add: two_items_env_def example_env_def example_request_def extraction_def
        prepare_def isEditMode_def current_items_def)
  have p: "json_parse two_items_env (or_default (Some two_items_text) ''{}'') = Inr two_items"
    by (simp add: two_items_env_def example_env_def parse_table_def or_default_def
        two_items_text_def)
  have g: "array_items (js_get ?r ''line_items'') = ?items" by (simp add: build_result_def)
  have raw: "raw_items two_items =
      [JObj [(''item_id'', JStr ''a''), (''quantity'', JNum 50), (''uom'', JStr ''pcs''),
             (''size'', JObj [(''od_val'', JNum 10), (''od_unit'', JStr ''in'')])],
       JObj []]"
    by (simp add: raw_items_def two_items_def)
  from record_keys [OF h] obtain t pd where
    t: "extraction two_items_env (example_request None) = Inr t" and
    pd: "json_parse two_items_env (or_default t ''{}'') = Inr pd" and
    a: "keys (to_json ?r) =
        ''rfq_id'' # filter (\<lambda>k. js_get pd k \<noteq> JUndefined) [''project_name'']
          @ [''commercial'', ''line_items'']" and
    c: "keys (js_get (to_json ?r) ''commercial'')
        = [''destination'', ''incoterm'', ''paymentTerm'', ''otherRequirements'']" and
    f: "\<forall>i < length (raw_items pd).
          js_get (array_items (js_get ?r ''line_items'') ! i) ''quantity''
            = js_get (raw_items pd ! i) ''quantity''
        \<and> keys (to_json (array_items (js_get ?r ''line_items'') ! i)) =
            [''item_id'', ''line'', ''description'', ''material_grade'', ''size'']
            @ filter (\<lambda>k. js_get (raw_items pd ! i) k \<noteq> JUndefined) [''quantity'', ''uom'']"
    by blast
  from t x have "t = Some two_items_text" by simp
  with pd p have pd': "pd = two_items" by simp
  from a have a': "keys (to_json ?r) = [''rfq_id'', ''project_name'', ''commercial'', ''line_items'']"
    by (simp add: pd' two_items_def)
  have l2: "length (raw_items two_items) = 2" by (simp add: raw)
  note f' = f [unfolded pd' g, rule_format]
  from f' [of 0] l2 have q0: "js_get (?items ! 0) ''quantity'' = JNum 50"
    and k0: "keys (to_json (?items ! 0)) =
         [''item_id'', ''line'', ''description'', ''material_grade'', ''size'', ''quantity'', ''uom'']"
    by (simp_all add: raw)
  from f' [of 1] l2 have k1: "keys (to_json (?items ! 1)) =
         [''item_id'', ''line'', ''description'', ''material_grade'', ''size'']"
    by (simp add: raw)
  from h a' c k0 k1 q0 show ?thesis by (intro conjI)
qed

subsection \<open>C5: which identifier an item gets\<close>

text \<open>
  C5 as stated: in a pass with prior items, an extracted item whose \<^verbatim>\<open>item_id\<close>
  matches a prior item keeps it, and every other extracted item gets a newly
  minted identifier that is unique in the resulting RFQ. The mapping never
  looks at the prior items: an identifier that matches none of them is kept as
  well, here twice in one RFQ.
\<close>

theorem unmatched_id_kept_counterexample:
  "current_items edit_env edit_request = JArr [JObj [(''item_id'', JStr ''a'')]]
   \<and> isEditMode edit_env edit_request = Inr True
   \<and> status (snd (parse_handler edit_env edit_request rfqStore0)) = 200
   \<and> item_ids (response_items (snd (parse_handler edit_env edit_request rfqStore0)))
       = [JStr ''a'', JStr ''zzz'', JStr ''zzz'']
   \<and> JStr ''zzz'' \<notin> set (item_ids (array_items (current_items edit_env edit_request)))"
  by (simp add: edit_env_def edit_request_def example_env_def example_request_def
      parse_table_def prior_text_def edited_text_def current_items_def isEditMode_def
      parse_handler_def pipeline_def extraction_def prepare_def reconcile_def build_result_def
      or_default_def item_ids_def mapping_eval)

text \<open>
  C5, amended. For every item of a reconciliation pass: when the extracted
  \<^verbatim>\<open>item_id\<close> is truthy (a non-empty string) the item keeps it as it is, whether
  or not a prior item has it; when it is absent or falsy the item gets
  \<^verbatim>\<open>L<Date.now()>-<index>\<close>, which differs from the identifier minted for every
  other index of the pass.
\<close>

theorem identity_assignment:
  assumes "to_internal clock parsedData = Inr items" "i < length items"
  shows "(truthy (js_get (raw_items parsedData ! i) ''item_id'') \<longrightarrow>
            item_ids items ! i = js_get (raw_items parsedData ! i) ''item_id'')
       \<and> (\<not> truthy (js_get (raw_items parsedData ! i) ''item_id'') \<longrightarrow>
            item_ids items ! i = JStr (mint (clock i) i)
          \<and> (\<forall>j < length items. j \<noteq> i \<longrightarrow>
                \<not> truthy (js_get (raw_items parsedData ! j) ''item_id'') \<longrightarrow>
                item_ids items ! j \<noteq> item_ids items ! i))"
proof -
  have "item_ids items ! j \<noteq> item_ids items ! i"
    if "j < length items" "j \<noteq> i"
      "\<not> truthy (js_get (raw_items parsedData ! j) ''item_id'')"
      "\<not> truthy (js_get (raw_items parsedData ! i) ''item_id'')" for j
    using item_ids_nth [OF assms(1) that(1)] item_ids_nth [OF assms] that mint_inj [of "clock j" j "clock i" i]
    by (auto simp: js_or_def)
  then show ?thesis using item_ids_nth [OF assms] by (auto simp: js_or_def)
qed

theorem identity_assignment_witness:
  "to_internal (fixed_clock 5) known_new_known
     = Inr (produced (to_internal (fixed_clock 5) known_new_known))
   \<and> 1 < length (produced (to_internal (fixed_clock 5) known_new_known))
   \<and> 0 < length (produced (to_internal (fixed_clock 5) known_new_known))
   \<and> item_ids (produced (to_internal (fixed_clock 5) known_new_known)) ! 0 = JStr ''a''
   \<and> item_ids (produced (to_internal (fixed_clock 5) known_new_known)) ! 1 = JStr ''L5-1''"
proof -
  have h1: "to_internal (fixed_clock 5) known_new_known
     = Inr (produced (to_internal (fixed_clock 5) known_new_known))"
    by (simp add: known_new_known_def mapping_eval)
  have h2: "1 < length (produced (to_internal (fixed_clock 5) known_new_known))"
    by (simp add: known_new_known_def mapping_eval)
  have h3: "0 < length (produced (to_internal (fixed_clock 5) known_new_known))"
    by (simp add: known_new_known_def mapping_eval)
  have r0: "js_get (raw_items known_new_known ! 0) ''item_id'' = JStr ''a''"
    by (simp add: known_new_known_def mapping_eval)
  have r1: "js_get (raw_items known_new_known ! 1) ''item_id'' = JUndefined"
    by (simp add: known_new_known_def mapping_eval)
  have m: "mint (fixed_clock 5 1) 1 = ''L5-1''" by (simp add: mapping_eval)
  from identity_assignment [OF h1 h3] identity_assignment [OF h1 h2] r0 r1 m h1 h2 h3
  show ?thesis by simp
qed

subsection \<open>C6: distinct identifiers\<close>

text \<open>
  C6 as stated: the \<^verbatim>\<open>item_id\<close> values of every produced list are pairwise
  distinct, also when the extraction output carries duplicates. Duplicates are
  copied, and a minted identifier can meet one that the output carries.
\<close>

theorem duplicate_ids_counterexample:
  "item_ids (produced (to_internal (fixed_clock 5) same_id_twice)) = [JStr ''A'', JStr ''A'']
   \<and> \<not> distinct (item_ids (produced (to_internal (fixed_clock 5) same_id_twice)))
   \<and> item_ids (produced (to_internal (fixed_clock 5) minted_id_taken))
       = [JStr ''L5-1'', JStr ''L5-1'']"
  by (simp add: same_id_twice_def minted_id_taken_def item_ids_def mapping_eval)

text \<open>
  C6, amended. For every line-item list produced by a reconciliation pass from
  an extraction output whose truthy \<^verbatim>\<open>item_id\<close> values are pairwise distinct and
  none of whose \<^verbatim>\<open>item_id\<close> values is an identifier minted in that pass, the
  \<^verbatim>\<open>item_id\<close> values are pairwise distinct.
\<close>

theorem item_ids_distinct:
  assumes "to_internal clock parsedData = Inr items"
    and "distinct (filter truthy (item_ids (raw_items parsedData)))"
    and "\<forall>j < length items. \<not> truthy (js_get (raw_items parsedData ! j) ''item_id'') \<longrightarrow>
           JStr (mint (clock j) j) \<notin> set (item_ids (raw_items parsedData))"
  shows "distinct (item_ids items)"
proof -
  have len: "length (raw_items parsedData) = length items"
    using to_internal_Inr [OF assms(1)] by (simp add: map_items_length)
  have "item_ids items ! i \<noteq> item_ids items ! j"
    if "i < length items" "j < length items" "i \<noteq> j" for i j
  proof -
    let ?r = "\<lambda>k. js_get (raw_items parsedData ! k) ''item_id''"
    have raw: "item_ids (raw_items parsedData) ! k = ?r k" if "k < length items" for k
      using that len by (simp add: item_ids_def)
    have mem: "?r k \<in> set (item_ids (raw_items parsedData))" if "k < length items" for k
      using that len by (auto simp: item_ids_def)
    note ni = item_ids_nth [OF assms(1) that(1)] and nj = item_ids_nth [OF assms(1) that(2)]
    consider "truthy (?r i)" "truthy (?r j)" | "truthy (?r i)" "\<not> truthy (?r j)"
      | "\<not> truthy (?r i)" "truthy (?r j)" | "\<not> truthy (?r i)" "\<not> truthy (?r j)" by blast
    then show ?thesis
    proof cases
      case 1
      from distinct_filter_nth [OF assms(2), of i j] that len 1 raw
      show ?thesis using ni nj 1 by (simp add: js_or_def item_ids_def)
    next
      case 2
      with assms(3) that mem [OF that(1)] show ?thesis using ni nj by (auto simp: js_or_def)
    next
      case 3
      with assms(3) that mem [OF that(2)] show ?thesis using ni nj by (auto simp: js_or_def)
    next
      case 4
      with that mint_inj [of "clock i" i "clock j" j] show ?thesis using ni nj
        by (auto simp: js_or_def)
    qed
  qed
  then show ?thesis by (simp add: distinct_conv_nth item_ids_def)
qed

theorem item_ids_distinct_witness:
  "to_internal (fixed_clock 5) known_new_known
     = Inr (produced (to_internal (fixed_clock 5) known_new_known))
   \<and> distinct (filter truthy (item_ids (raw_items known_new_known)))
   \<and> JStr (mint (fixed_clock 5 1) 1) \<notin> set (item_ids (raw_items known_new_known))
   \<and> distinct (item_ids (produced (to_internal (fixed_clock 5) known_new_known)))"
proof -
  have h1: "to_internal (fixed_clock 5) known_new_known
     = Inr (produced (to_internal (fixed_clock 5) known_new_known))"
    by (simp add: known_new_known_def mapping_eval)
  have l: "length (produced (to_internal (fixed_clock 5) known_new_known)) = 3"
    by (simp add: known_new_known_def mapping_eval)
  have ids: "item_ids (raw_items known_new_known) = [JStr ''a'', JUndefined, JStr ''b'']"
    by (simp add: known_new_known_def mapping_eval item_ids_def)
  have h2: "distinct (filter truthy (item_ids (raw_items known_new_known)))"
    by (simp add: ids)
  have m: "JStr (mint (fixed_clock 5 1) 1) \<notin> set (item_ids (raw_items known_new_known))"
    unfolding ids by (simp add: mint_def digits_small digit_char_def fixed_clock_def)
  have r: "js_get (raw_items known_new_known ! j) ''item_id'' = item_ids (raw_items known_new_known) ! j"
    if "j < 3" for j
  proof -
    have "length (raw_items known_new_known) = 3"
      by (simp add: known_new_known_def raw_items_def)
    with that show ?thesis by (simp add: item_ids_def)
  qed
  have h3: "\<forall>j < length (produced (to_internal (fixed_clock 5) known_new_known)).
      \<not> truthy (js_get (raw_items known_new_known ! j) ''item_id'') \<longrightarrow>
      JStr (mint (fixed_clock 5 j) j) \<notin> set (item_ids (raw_items known_new_known))"
  proof (intro allI impI)
    fix j assume j: "j < length (produced (to_internal (fixed_clock 5) known_new_known))"
      and f: "\<not> truthy (js_get (raw_items known_new_known ! j) ''item_id'')"
    from j l have "j = 0 \<or> j = 1 \<or> j = 2" by auto
    with f r [of j] have "j = 1" by (auto simp: ids)
    with m show "JStr (mint (fixed_clock 5 j) j) \<notin> set (item_ids (raw_items known_new_known))"
      by simp
  qed
  from item_ids_distinct [OF h1 h2 h3] h1 h2 m show ?thesis by simp
qed

subsection \<open>C7: line numbers\<close>

text \<open>
  C7. For every reconciliation output of length N, the \<^verbatim>\<open>line\<close> values of the
  items, read in sequence order, are exactly 1, 2, ..., N: no duplicates, no
  gaps. The mapping writes \<^verbatim>\<open>idx + 1\<close> and reads no \<^verbatim>\<open>line\<close> from the extraction
  output or from the current items.
\<close>

theorem line_numbers_sequential:
  assumes "to_internal clock parsedData = Inr items"
  shows "line_numbers items = map (\<lambda>n. JNum (of_nat n)) [1..<Suc (length items)]"
proof (rule nth_equalityI)
  show "length (line_numbers items) = length (map (\<lambda>n. JNum (of_nat n)) [1..<Suc (length items)])"
    unfolding line_numbers_def length_map length_upt by simp
next
  fix i assume "i < length (line_numbers items)"
  then have i: "i < length items" by (simp add: line_numbers_def)
  from produced_item(2) [OF assms i] have "js_get (items ! i) ''line'' = JNum (of_nat i + 1)"
    by (rule to_item_Inr(3))
  moreover have "[1..<Suc (length items)] ! i = 1 + i" using i by (simp del: upt_Suc)
  ultimately show "line_numbers items ! i = map (\<lambda>n. JNum (of_nat n)) [1..<Suc (length items)] ! i"
    using i by (simp add: line_numbers_def add.commute del: upt_Suc)
qed

theorem line_numbers_sequential_witness:
  "to_internal (fixed_clock 5)
     (JObj [(''line_items'', JArr [JObj [(''item_id'', JStr ''a''), (''line'', JNum 9)], JNum 7])])
   = Inr
      [JObj [(''item_id'', JStr ''a''), (''line'', JNum 1), (''description'', JStr []),
             (''material_grade'', JStr []),
             (''size'', JObj
                [(''outer_diameter'', JObj [(''value'', JUndefined), (''unit'', JUndefined)]),
                 (''wall_thickness'', JObj [(''value'', JUndefined), (''unit'', JUndefined)]),
                 (''length'', JObj [(''value'', JUndefined), (''unit'', JUndefined)])]),
             (''quantity'', JUndefined), (''uom'', JUndefined)],
       JObj [(''item_id'', JStr ''L5-1''), (''line'', JNum 2), (''description'', JStr []),
             (''material_grade'', JStr []),
             (''size'', JObj
                [(''outer_diameter'', JObj [(''value'', JUndefined), (''unit'', JUndefined)]),
                 (''wall_thickness'', JObj [(''value'', JUndefined), (''unit'', JUndefined)]),
                 (''length'', JObj [(''value'', JUndefined), (''unit'', JUndefined)])]),
             (''quantity'', JUndefined), (''uom'', JUndefined)]]
   \<and> line_numbers (produced (to_internal (fixed_clock 5)
     (JObj [(''line_items'', JArr [JObj [(''item_id'', JStr ''a''), (''line'', JNum 9)], JNum 7])])))
     = [JNum 1, JNum 2]"
proof -
  let ?pd = "JObj [(''line_items'', JArr [JObj [(''item_id'', JStr ''a''), (''line'', JNum 9)], JNum 7])]"
  have h: "to_internal (fixed_clock 5) ?pd = Inr (produced (to_internal (fixed_clock 5) ?pd))"
    by (simp add: to_internal_def js_prop_def nullish_def js_or_def to_item_def)
  have l: "length (produced (to_internal (fixed_clock 5) ?pd)) = 2"
    by (simp add: to_internal_def js_prop_def nullish_def js_or_def to_item_def)
  have e: "to_internal (fixed_clock 5) ?pd = Inr
      [JObj [(''item_id'', JStr ''a''), (''line'', JNum 1), (''description'', JStr []),
             (''material_grade'', JStr []),
             (''size'', JObj
                [(''outer_diameter'', JObj [(''value'', JUndefined), (''unit'', JUndefined)]),
                 (''wall_thickness'', JObj [(''value'', JUndefined), (''unit'', JUndefined)]),
                 (''length'', JObj [(''value'', JUndefined), (''unit'', JUndefined)])]),
             (''quantity'', JUndefined), (''uom'', JUndefined)],
       JObj [(''item_id'', JStr ''L5-1''), (''line'', JNum 2), (''description'', JStr []),
             (''material_grade'', JStr []),
             (''size'', JObj
                [(''outer_diameter'', JObj [(''value'', JUndefined), (''unit'', JUndefined)]),
                 (''wall_thickness'', JObj [(''value'', JUndefined), (''unit'', JUndefined)]),
                 (''length'', JObj [(''value'', JUndefined), (''unit'', JUndefined)])]),
             (''quantity'', JUndefined), (''uom'', JUndefined)]]"
    by (simp add: to_internal_def js_prop_def nullish_def js_or_def to_item_def dimension_def
        js_opt_get_def mint_def digits_small digit_char_def fixed_clock_def)
  from line_numbers_sequential [OF h] l
  have "line_numbers (produced (to_internal (fixed_clock 5) ?pd)) = [JNum 1, JNum 2]"
    by (simp add: upt_rec)
  with e show ?thesis by simp
qed

subsection \<open>C8: a failed request and the store\<close>

text \<open>
  C8. A Parse/Edit request that fails at any point of the pipeline, before the
  call of the extraction service, in the call, in parsing its text or in the
  mapping, is answered 500 with the message of the error and leaves the store
  exactly as it was: every lookup gives what it gave before. The only write is
  the single assignment of the whole record at line 183, after the last point
  of failure.
\<close>

theorem failure_leaves_store:
  assumes "prepare E req = Inl e
       \<or> (\<exists>g. prepare E req = Inr g \<and> generate_content E g = Inl e)
       \<or> (\<exists>t. extraction E req = Inr t \<and> json_parse E (or_default t ''{}'') = Inl e)
       \<or> (\<exists>t pd. extraction E req = Inr t \<and> json_parse E (or_default t ''{}'') = Inr pd
              \<and> to_internal (now_item E) pd = Inl e)"
  shows "parse_handler E req st = (st, Json 500 (JObj [(''error'', JStr (message e))]))
       \<and> (\<forall>k. store_get (fst (parse_handler E req st)) k = store_get st k)"
proof -
  from assms have "pipeline E req = Inl e"
    by (auto simp: pipeline_def reconcile_def extraction_def split: sum.splits)
  then show ?thesis by (simp add: parse_handler_def)
qed

theorem failure_leaves_store_witness:
  "prepare (example_env [] (Inl (ServiceError ''deadline exceeded''))) (example_request None)
     = Inr \<lparr>edit_mode = False, language = ''en'',
            request_text = Some ''50 pcs pipe OD 10in WT 0.5in length 6m'',
            project_context = ''N/A'', current_list = None, inline_parts = []\<rparr>
   \<and> generate_content (example_env [] (Inl (ServiceError ''deadline exceeded'')))
       \<lparr>edit_mode = False, language = ''en'',
        request_text = Some ''50 pcs pipe OD 10in WT 0.5in length 6m'',
        project_context = ''N/A'', current_list = None, inline_parts = []\<rparr>
     = Inl (ServiceError ''deadline exceeded'')
   \<and> parse_handler (example_env [] (Inl (ServiceError ''deadline exceeded'')))
       (example_request None) (store_put rfqStore0 ''RFQ-7'' (JObj [(''rfq_id'', JStr ''RFQ-7'')]))
     = (store_put rfqStore0 ''RFQ-7'' (JObj [(''rfq_id'', JStr ''RFQ-7'')]),
        Json 500 (JObj [(''error'', JStr ''deadline exceeded'')]))"
proof -
  let ?E = "example_env [] (Inl (ServiceError ''deadline exceeded''))"
  let ?g = "\<lparr>edit_mode = False, language = ''en'',
            request_text = Some ''50 pcs pipe OD 10in WT 0.5in length 6m'',
            project_context = ''N/A'', current_list = None, inline_parts = []\<rparr>"
  have p: "prepare ?E (example_request None) = Inr ?g"
    by (simp add: example_env_def example_request_def prepare_def isEditMode_def
        current_items_def or_default_def)
  have g: "generate_content ?E ?g = Inl (ServiceError ''deadline exceeded'')"
    by (simp add: example_env_def)
  from p g have h: "prepare ?E (example_request None) = Inl (ServiceError ''deadline exceeded'')
       \<or> (\<exists>g. prepare ?E (example_request None) = Inr g
              \<and> generate_content ?E g = Inl (ServiceError ''deadline exceeded''))
       \<or> (\<exists>t. extraction ?E (example_request None) = Inr t
              \<and> json_parse ?E (or_default t ''{}'') = Inl (ServiceError ''deadline exceeded''))
       \<or> (\<exists>t pd. extraction ?E (example_request None) = Inr t
              \<and> json_parse ?E (or_default t ''{}'') = Inr pd
              \<and> to_internal (now_item ?E) pd = Inl (ServiceError ''deadline exceeded''))"
    by blast
  from failure_leaves_store [OF h] p g show ?thesis by simp
qed

subsection \<open>C9: Get RFQ\<close>

text \<open>
  C9 says that Get RFQ on an identifier that was never stored answers Not
  found. The store is a plain object, so an identifier that names a property of
  \<^verbatim>\<open>Object.prototype\<close> is found although nothing was stored under it: on the
  empty store, \<^verbatim>\<open>GET /api/rfq/toString\<close> is answered 200 with no body, and
  \<^verbatim>\<open>GET /api/rfq/__proto__\<close> 200 with \<^verbatim>\<open>{}\<close>.
\<close>

theorem get_rfq_inherited_property:
  "own rfqStore0 ''toString'' = None
   \<and> get_rfq rfqStore0 ''toString'' = NoBody 200
   \<and> get_rfq rfqStore0 ''__proto__'' = Json 200 (JObj [])"
  by (simp add: get_rfq_def store_get_def rfqStore0_def inherited_def object_prototype_methods_def)

text \<open>
  For every other identifier the handler does what C9 says: a stored record is
  returned as it is, whatever its line items, and an identifier that is not in
  the store is answered 404, Not found.
\<close>

lemma get_rfq_stored:
  assumes "k = ''__proto__'' \<longrightarrow> own st k = None"
  shows "get_rfq (store_put st k (JObj kvs)) k = Json 200 (JObj kvs)"
  using assms by (simp add: get_rfq_def store_get_def store_put_def)

lemma get_rfq_unknown:
  assumes "own st k = None" "proto st = None" "k \<noteq> ''__proto__''"
    "k \<notin> set object_prototype_methods"
  shows "get_rfq st k = Json 404 (JObj [(''error'', JStr ''Not found'')])"
  using assms by (simp add: get_rfq_def store_get_def inherited_def)

subsection \<open>C10: current line items that are not JSON\<close>

text \<open>
  C10. When \<^verbatim>\<open>currentLineItems\<close> is supplied and \<^verbatim>\<open>JSON.parse\<close> rejects it, the
  request does not fail for it: the current items are the empty list, the
  request is in creation mode, and the handler does exactly what it does for
  the same request without \<^verbatim>\<open>currentLineItems\<close>; with an extraction output that
  parses and maps, a fresh RFQ is returned, and it is stored: the store and Get
  RFQ give it back under its identifier.
\<close>

theorem malformed_current_items_discarded:
  assumes "currentLineItems req = Some s" and "json_parse E s = Inl e"
  shows "current_items E req = JArr []
    \<and> isEditMode E req = Inr False
    \<and> parse_handler E req st = parse_handler E (req\<lparr>currentLineItems := None\<rparr>) st
    \<and> (\<forall>ps t pd items.
         load_files E (files req) = Inr ps \<longrightarrow>
         generate_content E
           \<lparr>edit_mode = False, language = or_default (lang req) ''en'',
            request_text = text_in req,
            project_context = or_default (projectName req) ''N/A'',
            current_list = None, inline_parts = ps\<rparr> = Inr t \<longrightarrow>
         json_parse E (or_default t ''{}'') = Inr pd \<longrightarrow>
         to_internal (now_item E) pd = Inr items \<longrightarrow>
         parse_handler E req st =
           (store_put st (new_rfq_id E req) (build_result (new_rfq_id E req) pd items),
            Json 200 (build_result (new_rfq_id E req) pd items))
         \<and> (store_ok st \<longrightarrow>
               store_get (fst (parse_handler E req st)) (new_rfq_id E req)
                 = Value (build_result (new_rfq_id E req) pd items)
             \<and> get_rfq (fst (parse_handler E req st)) (new_rfq_id E req)
                 = Json 200 (build_result (new_rfq_id E req) pd items)))"
proof -
  from assms have c: "current_items E req = JArr []" by (simp add: current_items_def)
  have c': "current_items E (req\<lparr>currentLineItems := None\<rparr>) = JArr []"
    by (simp add: current_items_def)
  from c have m: "isEditMode E req = Inr False" by (simp add: isEditMode_def)
  from c' have m': "isEditMode E (req\<lparr>currentLineItems := None\<rparr>) = Inr False"
    by (simp add: isEditMode_def)
  from m m' have p: "prepare E req = prepare E (req\<lparr>currentLineItems := None\<rparr>)"
    by (simp add: prepare_def split: sum.splits)
  have i: "new_rfq_id E (req\<lparr>currentLineItems := None\<rparr>) = new_rfq_id E req"
    by (simp add: new_rfq_id_def)
  have r: "reconcile E (req\<lparr>currentLineItems := None\<rparr>) t = reconcile E req t" for t
    unfolding reconcile_def i ..
  from p have x: "extraction E (req\<lparr>currentLineItems := None\<rparr>) = extraction E req"
    by (simp add: extraction_def)
  have "pipeline E (req\<lparr>currentLineItems := None\<rparr>) = pipeline E req"
    unfolding pipeline_def x r ..
  then have same: "parse_handler E req st = parse_handler E (req\<lparr>currentLineItems := None\<rparr>) st"
    unfolding parse_handler_def i by simp
  have ok: "parse_handler E req st =
           (store_put st (new_rfq_id E req) (build_result (new_rfq_id E req) pd items),
            Json 200 (build_result (new_rfq_id E req) pd items))
         \<and> (store_ok st \<longrightarrow>
               store_get (fst (parse_handler E req st)) (new_rfq_id E req)
                 = Value (build_result (new_rfq_id E req) pd items)
             \<and> get_rfq (fst (parse_handler E req st)) (new_rfq_id E req)
                 = Json 200 (build_result (new_rfq_id E req) pd items))"
    if "load_files E (files req) = Inr ps"
      "generate_content E
           \<lparr>edit_mode = False, language = or_default (lang req) ''en'',
            request_text = text_in req,
            project_context = or_default (projectName req) ''N/A'',
            current_list = None, inline_parts = ps\<rparr> = Inr t"
      "json_parse E (or_default t ''{}'') = Inr pd"
      "to_internal (now_item E) pd = Inr items" for ps t pd items
  proof -
    from that m have h: "parse_handler E req st =
           (store_put st (new_rfq_id E req) (build_result (new_rfq_id E req) pd items),
            Json 200 (build_result (new_rfq_id E req) pd items))"
      by (simp add: parse_handler_def pipeline_def extraction_def reconcile_def prepare_def)
    then show ?thesis by (simp add: store_get_put get_rfq_put_result)
  qed
  from c m same ok show ?thesis by blast
qed

theorem malformed_current_items_discarded_witness:
  "currentLineItems (example_request (Some ''not json'')) = Some ''not json''
   \<and> json_parse pipe_env ''not json'' = Inl (SyntaxError ''Unexpected token in JSON'')
   \<and> current_items pipe_env (example_request (Some ''not json'')) = JArr []
   \<and> isEditMode pipe_env (example_request (Some ''not json'')) = Inr False
   \<and> parse_handler pipe_env (example_request (Some ''not json'')) rfqStore0
       = parse_handler pipe_env (example_request None) rfqStore0
   \<and> status (snd (parse_handler pipe_env (example_request (Some ''not json'')) rfqStore0)) = 200
   \<and> item_ids (response_items
         (snd (parse_handler pipe_env (example_request (Some ''not json'')) rfqStore0)))
       = [JStr ''a'']
   \<and> store_ok rfqStore0
   \<and> get_rfq rfqStore0 ''RFQ-1234'' = Json 404 (JObj [(''error'', JStr ''Not found'')])
   \<and> status (get_rfq
         (fst (parse_handler pipe_env (example_request (Some ''not json'')) rfqStore0))
         ''RFQ-1234'') = 200
   \<and> item_ids (response_items (get_rfq
         (fst (parse_handler pipe_env (example_request (Some ''not json'')) rfqStore0))
         ''RFQ-1234''))
       = [JStr ''a'']"
proof -
  let ?R = "example_request (Some ''not json'')"
  have h1: "currentLineItems ?R = Some ''not json''" by (simp add: example_request_def)
  have h2: "json_parse pipe_env ''not json'' = Inl (SyntaxError ''Unexpected token in JSON'')"
    by (simp add: pipe_env_def example_env_def parse_table_def pipe_text_def)
  have r: "?R\<lparr>currentLineItems := None\<rparr> = example_request None"
    by (simp add: example_request_def)
  have l: "load_files pipe_env (files ?R) = Inr []" by (simp add: example_request_def)
  have g: "generate_content pipe_env
           \<lparr>edit_mode = False, language = or_default (lang ?R) ''en'',
            request_text = text_in ?R,
            project_context = or_default (projectName ?R) ''N/A'',
            current_list = None, inline_parts = []\<rparr> = Inr (Some pipe_text)"
    by (simp add: pipe_env_def example_env_def)
  have j: "json_parse pipe_env (or_default (Some pipe_text) ''{}'') = Inr (one_pipe ''in'')"
    by (simp add: pipe_env_def example_env_def parse_table_def pipe_text_def or_default_def)
  have t: "to_internal (now_item pipe_env) (one_pipe ''in'')
      = Inr (produced (to_internal (now_item pipe_env) (one_pipe ''in'')))"
    by (simp add: one_pipe_def mapping_eval)
  have i: "item_ids (produced (to_internal (now_item pipe_env) (one_pipe ''in''))) = [JStr ''a'']"
    by (simp add: one_pipe_def mapping_eval item_ids_def)
  have sk: "store_ok rfqStore0" by (rule store_ok_initial)
  have id: "new_rfq_id pipe_env ?R = ''RFQ-1234''"
    by (simp add: pipe_env_def handler_eval mapping_eval)
  have nf: "get_rfq rfqStore0 ''RFQ-1234'' = Json 404 (JObj [(''error'', JStr ''Not found'')])"
    by (simp add: get_rfq_def store_get_def rfqStore0_def inherited_def
        object_prototype_methods_def)
  from malformed_current_items_discarded [OF h1 h2, of rfqStore0] l g j t sk
  have a: "current_items pipe_env ?R = JArr []" and b: "isEditMode pipe_env ?R = Inr False"
    and c: "parse_handler pipe_env ?R rfqStore0
      = parse_handler pipe_env (?R\<lparr>currentLineItems := None\<rparr>) rfqStore0"
    and d: "parse_handler pipe_env ?R rfqStore0 =
       (store_put rfqStore0 (new_rfq_id pipe_env ?R)
          (build_result (new_rfq_id pipe_env ?R) (one_pipe ''in'')
             (produced (to_internal (now_item pipe_env) (one_pipe ''in'')))),
        Json 200 (build_result (new_rfq_id pipe_env ?R) (one_pipe ''in'')
             (produced (to_internal (now_item pipe_env) (one_pipe ''in'')))))"
    and e: "get_rfq (fst (parse_handler pipe_env ?R rfqStore0)) (new_rfq_id pipe_env ?R)
       = Json 200 (build_result (new_rfq_id pipe_env ?R) (one_pipe ''in'')
             (produced (to_internal (now_item pipe_env) (one_pipe ''in''))))"
    by blast+
  from c r have c': "parse_handler pipe_env ?R rfqStore0
      = parse_handler pipe_env (example_request None) rfqStore0" by simp
  have s: "status (snd (parse_handler pipe_env ?R rfqStore0)) = 200"
    by (subst d) simp
  have ids: "item_ids (response_items (snd (parse_handler pipe_env ?R rfqStore0))) = [JStr ''a'']"
    by (subst d) (simp add: build_result_def i)
  from e have e': "get_rfq (fst (parse_handler pipe_env ?R rfqStore0)) ''RFQ-1234''
       = Json 200 (build_result ''RFQ-1234'' (one_pipe ''in'')
             (produced (to_internal (now_item pipe_env) (one_pipe ''in''))))"
    by (simp only: id)
  have gs: "status (get_rfq (fst (parse_handler pipe_env ?R rfqStore0)) ''RFQ-1234'') = 200"
    by (subst e') simp
  have gi: "item_ids (response_items (get_rfq (fst (parse_handler pipe_env ?R rfqStore0))
      ''RFQ-1234'')) = [JStr ''a'']"
    by (subst e') (simp add: build_result_def i)
  from h1 h2 a b c' s ids sk nf gs gi show ?thesis by (intro conjI)
qed

end
